theory Spec2Isabelle
  imports Main "HOL-Library.Sublist"
begin

section \<open>Python strings\<close>

text \<open>
  A Python \<open>str\<close> is a sequence of Unicode code points. The tracker's literals hold
  code points beyond Latin-1 (the source file spells its accented letters with the
  characters U+221A, U+00A9, U+2020, ...), so a string is modelled as a list of code
  points. \<open>asc\<close> turns an ASCII literal into such a list.
\<close>

type_synonym pystr = "nat list"

definition asc :: "string \<Rightarrow> pystr" where
  "asc s = map of_char s"

text \<open>
  \<open>str.isspace\<close>, \<open>str.strip()\<close> and the pattern \<open>\s\<close> of a \<open>str\<close> regular
  expression share one set of white-space characters.
\<close>

definition is_space :: "nat \<Rightarrow> bool" where
  "is_space c \<longleftrightarrow>
     (9 \<le> c \<and> c \<le> 13) \<or> (28 \<le> c \<and> c \<le> 32) \<or> c = 133 \<or> c = 160 \<or> c = 5760 \<or>
     (8192 \<le> c \<and> c \<le> 8202) \<or> c = 8232 \<or> c = 8233 \<or> c = 8239 \<or> c = 8287 \<or>
     c = 12288"

definition strip :: "pystr \<Rightarrow> pystr" where
  "strip s = rev (dropWhile is_space (rev (dropWhile is_space s)))"

text \<open>
  \<open>\d\<close> matches every Unicode decimal digit (category Nd), and \<open>int()\<close> reads all of
  them. The digits come in runs of ten; \<open>decimal_zeros\<close> lists the code point of the
  zero of each run (Unicode 14, the table of CPython 3.11).
\<close>

definition decimal_zeros :: "nat list" where
  "decimal_zeros =
     [48, 1632, 1776, 1984, 2406, 2534, 2662, 2790, 2918, 3046, 3174, 3302, 3430, 3558,
      3664, 3792, 3872, 4160, 4240, 6112, 6160, 6470, 6608, 6784, 6800, 6992, 7088, 7232,
      7248, 42528, 43216, 43264, 43472, 43504, 43600, 44016, 65296, 66720, 68912, 69734,
      69872, 69942, 70096, 70384, 70736, 70864, 71248, 71360, 71472, 71904, 72016, 72784,
      73040, 73120, 92768, 92864, 93008, 120782, 120792, 120802, 120812, 120822, 123200,
      123632, 125264, 130032]"

definition digit_value :: "nat \<Rightarrow> nat option" where
  "digit_value c =
     (case filter (\<lambda>z. z \<le> c \<and> c < z + 10) decimal_zeros of
        [] \<Rightarrow> None
      | z # _ \<Rightarrow> Some (c - z))"

definition is_digit :: "nat \<Rightarrow> bool" where
  "is_digit c \<longleftrightarrow> digit_value c \<noteq> None"

text \<open>
  Python truthiness of an optional string: \<open>None\<close> and the empty string are false.
\<close>

definition truthy :: "pystr option \<Rightarrow> bool" where
  "truthy x \<longleftrightarrow> (case x of None \<Rightarrow> False | Some t \<Rightarrow> t \<noteq> [])"

text \<open>The slice \<open>xs[-n:]\<close> for a positive \<open>n\<close>: the last \<open>n\<close> elements, or all of \<open>xs\<close>.\<close>

definition last_n :: "nat \<Rightarrow> 'a list \<Rightarrow> 'a list" where
  "last_n n xs = drop (length xs - n) xs"

section \<open>Exceptions and outcomes\<close>

text \<open>
  The exceptions the tracker's code can raise. All three derive from Python's
  \<open>Exception\<close>, which is what the handler of \<open>parse_log_line\<close> catches.
  A raise does not undo assignments made before it, so an outcome carries the
  state reached when the function returned or raised.
\<close>

datatype exn = UnboundLocalError | AttributeError | ValueError

fun is_Exception :: "exn \<Rightarrow> bool" where
  "is_Exception UnboundLocalError = True"
| "is_Exception AttributeError = True"
| "is_Exception ValueError = True"

datatype 'a outcome = Returned 'a | Raised exn 'a

fun outcome_state :: "'a outcome \<Rightarrow> 'a" where
  "outcome_state (Returned s) = s"
| "outcome_state (Raised e s) = s"

text \<open>
  \<open>int(s)\<close> on a string of decimal digits. CPython refuses a string of more than
  4300 digits with \<open>ValueError\<close> (the default of \<open>sys.set_int_max_str_digits\<close>).
\<close>

definition digits_value :: "pystr \<Rightarrow> int" where
  "digits_value ds = foldl (\<lambda>acc c. 10 * acc + int (case digit_value c of None \<Rightarrow> 0 | Some d \<Rightarrow> d)) 0 ds"

definition py_int :: "pystr \<Rightarrow> exn + int" where
  "py_int ds = (if length ds > 4300 then Inl ValueError else Inr (digits_value ds))"

section \<open>The regular expressions of the tracker\<close>

text \<open>
  Every pattern the tracker passes to \<open>re.search\<close> is a sequence of literal text,
  greedy repetitions of one character class (\<open>[^:]+\<close>, \<open>\s*\<close>, \<open>\d+\<close>, \<open>.*\<close>), some
  of them capturing, and one capturing alternation of literals. \<open>match_at\<close> matches
  such a sequence at the start of a string with Python's backtracking order (a
  repetition tries its longest run first, an alternation its branches left to
  right) and returns the captured groups; \<open>re_search\<close> takes the leftmost start.
\<close>

datatype atom =
    Lit pystr
  | Many "nat \<Rightarrow> bool" nat bool
  | Alts "pystr list"

fun first_some :: "'a option list \<Rightarrow> 'a option" where
  "first_some [] = None"
| "first_some (None # xs) = first_some xs"
| "first_some (Some y # xs) = Some y"

fun match_at :: "atom list \<Rightarrow> pystr \<Rightarrow> pystr list option" where
  "match_at [] s = Some []"
| "match_at (Lit l # r) s =
     (if prefix l s then match_at r (drop (length l) s) else None)"
| "match_at (Many cls mn cap # r) s =
     first_some
       (map (\<lambda>k. case match_at r (drop k s) of
                    None \<Rightarrow> None
                  | Some g \<Rightarrow> Some (if cap then take k s # g else g))
            (rev [mn ..< Suc (length (takeWhile cls s))]))"
| "match_at (Alts ls # r) s =
     first_some
       (map (\<lambda>l. if prefix l s
                 then (case match_at r (drop (length l) s) of
                         None \<Rightarrow> None
                       | Some g \<Rightarrow> Some (l # g))
                 else None)
            ls)"

fun re_search :: "atom list \<Rightarrow> pystr \<Rightarrow> pystr list option" where
  "re_search p [] = match_at p []"
| "re_search p (c # cs) =
     (case match_at p (c # cs) of Some g \<Rightarrow> Some g | None \<Rightarrow> re_search p cs)"

text \<open>\<open>m.group(1)\<close> of a match whose pattern has a first group.\<close>

fun group1 :: "pystr list \<Rightarrow> pystr" where
  "group1 [] = []"
| "group1 (g # gs) = g"

fun group2 :: "pystr list \<Rightarrow> pystr" where
  "group2 (g # h # gs) = h"
| "group2 gs = []"

section \<open>Literals of the source\<close>

text \<open>
  The source file writes its accented letters as two characters each; the literals
  below are the strings of the file, code point by code point.
\<close>

definition e_acute :: pystr where "e_acute = [8730, 169]"
definition E_acute :: pystr where "E_acute = [8730, 226]"
definition e_grave :: pystr where "e_grave = [8730, 174]"
definition a_grave :: pystr where "a_grave = [8730, 8224]"

definition lance_le_sort :: pystr where
  "lance_le_sort = asc ''lance le sort''"

definition info_combat :: pystr where
  "info_combat = asc ''[Information (combat)]''"

definition sac_a_patate :: pystr where
  "sac_a_patate = asc ''Sac '' @ a_grave @ asc '' patate''"

definition quand_tu_auras_fini :: pystr where
  "quand_tu_auras_fini = asc ''Quand tu auras fini de me frapper''"

definition abandonner :: pystr where
  "abandonner = asc ''abandonner''"

definition abandonne_le_combat :: pystr where
  "abandonne_le_combat = asc ''Abandonne le combat''"

definition combat_termine :: pystr where
  "combat_termine = asc ''Combat termin'' @ e_acute"

definition combat_termine_long :: pystr where
  "combat_termine_long =
     asc ''Combat termin'' @ e_acute @ asc '', cliquez ici pour rouvrir l'' @ [39] @
     e_acute @ asc ''cran de fin de combat.''"

definition est_hors_combat :: pystr where
  "est_hors_combat = asc ''est hors-combat''"

definition est_KO :: pystr where
  "est_KO = asc ''est KO !''"

definition reportee :: pystr where
  "reportee = asc ''report'' @ e_acute @ asc ''e pour le tour suivant''"

definition reportees :: pystr where
  "reportees = asc ''report'' @ e_acute @ asc ''es pour le tour suivant''"

definition tracker_loss_isole :: pystr where
  "tracker_loss_isole =
     asc ''n'' @ [39] @ asc ''est plus sous l'' @ [39] @ asc ''emprise de '' @ [39] @
     asc ''tracker'' @ [39] @ asc '' (Iop isol'' @ e_acute @ asc '')''"

definition tracker_loss_compulsion :: pystr where
  "tracker_loss_compulsion =
     asc ''n'' @ [39] @ asc ''est plus sous l'' @ [39] @ asc ''emprise de '' @ [39] @
     asc ''tracker'' @ [39] @ asc '' (Compulsion)''"

definition tracker_tag :: pystr where
  "tracker_tag = asc ''(tracker)''"

definition etendard_de_bravoure :: pystr where
  "etendard_de_bravoure = E_acute @ asc ''tendard de bravoure''"

text \<open>Character classes: \<open>[^:]\<close>, \<open>[^\(\n]\<close>, \<open>[^)]\<close> and the dot.\<close>

definition not_colon :: "nat \<Rightarrow> bool" where "not_colon c \<longleftrightarrow> c \<noteq> 58"
definition not_paren_nl :: "nat \<Rightarrow> bool" where "not_paren_nl c \<longleftrightarrow> c \<noteq> 40 \<and> c \<noteq> 10"
definition not_rparen :: "nat \<Rightarrow> bool" where "not_rparen c \<longleftrightarrow> c \<noteq> 41"
definition dot :: "nat \<Rightarrow> bool" where "dot c \<longleftrightarrow> c \<noteq> 10"

text \<open>The patterns, in the order of their first use in \<open>parse_log_line\<close>.\<close>

definition pat_player_spell_colon :: "atom list" where
  \<comment> \<open>\<open>\[Information \(combat\)\]\s+([^:]+):\s+lance le sort\<close>\<close>
  "pat_player_spell_colon =
     [Lit info_combat, Many is_space 1 False, Many not_colon 1 True, Lit (asc '':''),
      Many is_space 1 False, Lit lance_le_sort]"

definition pat_player_spell_space :: "atom list" where
  \<comment> \<open>\<open>\[Information \(combat\)\]\s+([^:]+)\s+lance le sort\<close>\<close>
  "pat_player_spell_space =
     [Lit info_combat, Many is_space 1 False, Many not_colon 1 True,
      Many is_space 1 False, Lit lance_le_sort]"

definition pat_spell_name :: "atom list" where
  \<comment> \<open>\<open>lance le sort ([^\(\n]+)\<close>\<close>
  "pat_spell_name = [Lit (asc ''lance le sort ''), Many not_paren_nl 1 True]"

definition pat_hors_combat :: "atom list" where
  "pat_hors_combat = [Lit est_hors_combat]"

definition pat_KO :: "atom list" where
  "pat_KO = [Lit est_KO]"

definition pat_rage :: "atom list" where
  \<comment> \<open>\<open>rage \(\+(\d+) Niv\.\)\<close>\<close>
  "pat_rage = [Lit (asc ''rage (+''), Many is_digit 1 True, Lit (asc '' Niv.)'')]"

definition pat_player_rage :: "atom list" where
  \<comment> \<open>\<open>\[Information \(combat\)\] ([^:]+): rage\<close>\<close>
  "pat_player_rage =
     [Lit (asc ''[Information (combat)] ''), Many not_colon 1 True, Lit (asc '': rage'')]"

definition pat_tracker :: "atom list" where
  \<comment> \<open>\<open>tracker \(\+(\d+) Niv\.\)\<close>\<close>
  "pat_tracker = [Lit (asc ''tracker (+''), Many is_digit 1 True, Lit (asc '' Niv.)'')]"

definition pat_player_tracker_loss :: "atom list" where
  \<comment> \<open>\<open>\[Information \(combat\)\] ([^:]+): n\'est plus sous l\'emprise de \'tracker\'\<close>\<close>
  "pat_player_tracker_loss =
     [Lit (asc ''[Information (combat)] ''), Many not_colon 1 True,
      Lit (asc '': n'' @ [39] @ asc ''est plus sous l'' @ [39] @ asc ''emprise de '' @ [39] @
           asc ''tracker'' @ [39])]"

definition pat_tracker_gain :: "atom list" where
  \<comment> \<open>\<open>tracker \(\+(\d+) Niv\.\) \((Compulsion|rage)\)\<close>\<close>
  "pat_tracker_gain =
     [Lit (asc ''tracker (+''), Many is_digit 1 True, Lit (asc '' Niv.) (''),
      Alts [asc ''Compulsion'', asc ''rage''], Lit (asc '')'')]"

definition pat_tracker_damage :: "atom list" where
  \<comment> \<open>\<open>\[Information \(combat\)\] .*: -(\d+) PV \([^)]+\) \(tracker\)\<close>\<close>
  "pat_tracker_damage =
     [Lit (asc ''[Information (combat)] ''), Many dot 0 False, Lit (asc '': -''),
      Many is_digit 1 True, Lit (asc '' PV (''), Many not_rparen 1 False,
      Lit (asc '') (tracker)'')]"

definition pat_preparation :: "atom list" where
  \<comment> \<open>\<open>Pr..paration \(\+(\d+) Niv\.\)\<close>, the accent as the file spells it\<close>
  "pat_preparation =
     [Lit (asc ''Pr'' @ e_acute @ asc ''paration (+''), Many is_digit 1 True,
      Lit (asc '' Niv.)'')]"

definition pat_damage :: "atom list" where
  \<comment> \<open>\<open>\[Information \(combat\)\] ([^:]+):\s*-(\d+)\s*PV\<close>\<close>
  "pat_damage =
     [Lit (asc ''[Information (combat)] ''), Many not_colon 1 True, Lit (asc '':''),
      Many is_space 0 False, Lit (asc ''-''), Many is_digit 1 True, Many is_space 0 False,
      Lit (asc ''PV'')]"

section \<open>The tracker's state\<close>

text \<open>
  A timeline entry is the dictionary built by \<open>add_spell_to_timeline\<close>; its keys
  \<open>pixmap\<close>, \<open>alpha\<close> and \<open>slide\<close> serve the drawing code only and are left out.
\<close>

record entry =
  spell :: pystr
  cost :: pystr

text \<open>
  The attributes of \<open>WakfuOugiResourceTracker\<close> that \<open>parse_log_line\<close> and
  \<open>add_spell_to_timeline\<close> read or write, apart from widgets and animation
  parameters. Three attributes are read by the code but assigned nowhere in the
  class: \<open>ougi_spells\<close>, \<open>current_turn_spells\<close> and \<open>spell_cost_map\<close>. They are
  optional fields: \<open>None\<close> is an object without the attribute, on which the read
  raises \<open>AttributeError\<close>. The dictionary \<open>spell_cost_map\<close> is an association list.
\<close>

record tracker_state =
  rage :: int
  tracker :: int
  prey :: bool
  current_rage :: int
  current_tracker :: int
  current_prey :: bool
  pending_rage_loss :: bool
  rage_loss_caster :: "pystr option"
  rage_loss_spell :: "pystr option"
  in_combat :: bool
  tracked_player_name :: "pystr option"
  is_sac_patate_combat :: bool
  is_ougi_turn :: bool
  overlay_visible :: bool
  processed_lines :: "int set"
  last_spell_caster :: "pystr option"
  last_etendard_cast :: bool
  timeline_entries :: "entry list"
  ougi_spells :: "pystr list option"
  current_turn_spells :: "pystr list option"
  spell_cost_map :: "(pystr \<times> pystr) list option"

text \<open>The state \<open>__init__\<close> builds.\<close>

definition init_state :: tracker_state where
  "init_state =
     \<lparr> rage = 0, tracker = 0, prey = False,
       current_rage = 0, current_tracker = 0, current_prey = False,
       pending_rage_loss = False, rage_loss_caster = None, rage_loss_spell = None,
       in_combat = False, tracked_player_name = None, is_sac_patate_combat = False,
       is_ougi_turn = False, overlay_visible = False, processed_lines = {},
       last_spell_caster = None, last_etendard_cast = False, timeline_entries = [],
       ougi_spells = None, current_turn_spells = None, spell_cost_map = None \<rparr>"

definition timeline_max_slots :: nat where
  "timeline_max_slots = 5"

definition spell_icon_stem_map :: "(pystr \<times> pystr) list" where
  "spell_icon_stem_map =
     [(E_acute @ asc ''p'' @ e_acute @ asc ''e c'' @ e_acute @ asc ''leste'', asc ''epeeceleste''),
      (asc ''Fulgur'', asc ''fulgur''),
      (asc ''Super Iop Punch'', asc ''superioppunch''),
      (asc ''Jugement'', asc ''jugement''),
      (asc ''Col'' @ e_grave @ asc ''re de Iop'', asc ''colere''),
      (E_acute @ asc ''branler'', asc ''ebranler''),
      (asc ''Roknocerok'', asc ''roknocerok''),
      (asc ''Fendoir'', asc ''fendoir''),
      (asc ''Ravage'', asc ''ravage''),
      (asc ''Jabs'', asc ''jabs''),
      (asc ''Rafale'', asc ''rafale''),
      (asc ''Torgnole'', asc ''torgnole''),
      (asc ''Tann'' @ e_acute @ asc ''e'', asc ''tannee''),
      (E_acute @ asc ''p'' @ e_acute @ asc ''e de Iop'', asc ''epeeduiop''),
      (asc ''Bond'', asc ''bond''),
      (asc ''Focus'', asc ''Focus''),
      (E_acute @ asc ''ventrail'', asc ''eventrail''),
      (asc ''Uppercut'', asc ''uppercut''),
      (asc ''Amplification'', asc ''Amplification''),
      (asc ''Duel'', asc ''Duel''),
      (E_acute @ asc ''tendard de bravoure'', asc ''Etandard''),
      (asc ''Vertu'', asc ''Vertu''),
      (asc ''Charge'', asc ''charge'')]"

text \<open>
  What the interpreter fixes and the source does not: the value of \<open>hash\<close> on a
  string (salted per process), and the order in which \<open>list\<close> walks a \<open>set\<close>.
\<close>

record env =
  py_hash :: "pystr \<Rightarrow> int"
  set_order :: "int set \<Rightarrow> int list"

section \<open>The timeline\<close>

text \<open>
  \<open>add_spell_to_timeline\<close>. The read of \<open>self.spell_cost_map\<close> raises when the
  attribute is missing, and the function has no handler of its own. A spell is
  known when both dictionaries give it a non-empty value. The new entry is
  appended, and a list longer than \<open>timeline_max_slots\<close> is cut to its last
  \<open>timeline_max_slots + 1\<close> entries (the source keeps one more than the slots, for
  the animation that later drops the oldest). The closing call of
  \<open>update_timeline_display\<close> only moves widgets.
\<close>

definition add_spell_to_timeline :: "tracker_state \<Rightarrow> pystr \<Rightarrow> tracker_state outcome" where
  "add_spell_to_timeline s spell_name =
     (let spell_key = strip spell_name in
      case spell_cost_map s of
        None \<Rightarrow> Raised AttributeError s
      | Some cost_map \<Rightarrow>
          (case (map_of cost_map spell_key, map_of spell_icon_stem_map spell_key) of
             (Some cost_text, Some icon_stem) \<Rightarrow>
               if cost_text = [] \<or> icon_stem = [] then Returned s
               else
                 let compact_cost = filter (\<lambda>c. c \<noteq> 32) cost_text;
                     new_entry = \<lparr> spell = spell_key, cost = compact_cost \<rparr>;
                     entries = timeline_entries s @ [new_entry]
                 in Returned
                      (s\<lparr>timeline_entries :=
                           (if length entries > timeline_max_slots
                            then last_n (timeline_max_slots + 1) entries
                            else entries)\<rparr>)
           | _ \<Rightarrow> Returned s))"

text \<open>
  The animation timer (\<open>update_animations\<close>) writes two things besides animation
  parameters: on every tick it copies the three resources into their display
  copies, and once the oldest entry of an over-full timeline has faded out it pops
  that entry.
\<close>

definition sync_display :: "tracker_state \<Rightarrow> tracker_state" where
  "sync_display s =
     s\<lparr>current_rage := rage s, current_tracker := tracker s, current_prey := prey s\<rparr>"

definition drop_faded_entry :: "tracker_state \<Rightarrow> tracker_state" where
  "drop_faded_entry s =
     (if length (timeline_entries s) > timeline_max_slots
      then s\<lparr>timeline_entries := tl (timeline_entries s)\<rparr>
      else s)"

section \<open>Line processing\<close>

subsection \<open>Deduplication\<close>

text \<open>
  The three branches that open \<open>parse_log_line\<close> (a cast line the first pattern
  matches, a cast line it does not match, any other line) differ in what they
  print only: each computes \<open>hash(line.strip())\<close>, returns when the set holds it,
  and adds it otherwise. Then a set of more than 1000 hashes is replaced by the
  last 500 of \<open>list(self.processed_lines)\<close>. (\<open>len\<close> of the set is \<open>card\<close>; the
  sets of a run are finite.)
\<close>

definition line_hash :: "env \<Rightarrow> pystr \<Rightarrow> int" where
  "line_hash ev line = py_hash ev (strip line)"

definition trim_processed :: "env \<Rightarrow> tracker_state \<Rightarrow> tracker_state" where
  "trim_processed ev s =
     (if card (processed_lines s) > 1000
      then s\<lparr>processed_lines := set (last_n 500 (set_order ev (processed_lines s)))\<rparr>
      else s)"

subsection \<open>The special-encounter marker\<close>

definition has_sac_patate_marker :: "pystr \<Rightarrow> bool" where
  "has_sac_patate_marker line \<longleftrightarrow>
     sublist sac_a_patate line \<and>
     (sublist quand_tu_auras_fini line \<or> sublist abandonner line \<or>
      sublist abandonne_le_combat line)"

definition mark_sac_patate :: "tracker_state \<Rightarrow> pystr \<Rightarrow> tracker_state" where
  "mark_sac_patate s line =
     (if has_sac_patate_marker line then s\<lparr>is_sac_patate_combat := True\<rparr> else s)"

text \<open>
  The state of a line that passed the duplicate test, at the point where the
  function starts to classify it.
\<close>

definition after_dedup :: "env \<Rightarrow> tracker_state \<Rightarrow> pystr \<Rightarrow> tracker_state" where
  "after_dedup ev s line =
     mark_sac_patate
       (trim_processed ev
          (s\<lparr>processed_lines := insert (line_hash ev line) (processed_lines s)\<rparr>))
       line"

subsection \<open>Cast lines\<close>

text \<open>
  The steps of the cast branch, in the order of the source: binding the tracked
  player on the first signature spell, the test \<open>is_tracked_caster\<close>, entering
  combat, and showing the overlay.
\<close>

definition bind_tracked_player :: "bool \<Rightarrow> pystr option \<Rightarrow> tracker_state \<Rightarrow> tracker_state" where
  "bind_tracked_player is_ougi_spell caster_name s =
     (if is_ougi_spell \<and> \<not> truthy (tracked_player_name s)
      then s\<lparr>tracked_player_name := caster_name\<rparr>
      else s)"

definition is_tracked_caster :: "pystr option \<Rightarrow> tracker_state \<Rightarrow> bool" where
  "is_tracked_caster caster_name s \<longleftrightarrow>
     truthy caster_name \<and> truthy (tracked_player_name s) \<and>
     map_option strip caster_name = map_option strip (tracked_player_name s)"

definition enter_combat :: "bool \<Rightarrow> tracker_state \<Rightarrow> tracker_state" where
  "enter_combat tracked_caster s =
     (if \<not> in_combat s \<and> tracked_caster
      then s\<lparr>in_combat := True, tracker := 0, current_tracker := 0\<rparr>
      else s\<lparr>in_combat := True\<rparr>)"

definition show_overlay :: "bool \<Rightarrow> bool \<Rightarrow> tracker_state \<Rightarrow> tracker_state" where
  "show_overlay is_ougi_spell tracked_caster s =
     (if is_ougi_spell \<and> tracked_caster
      then s\<lparr>is_ougi_turn := True, overlay_visible := True\<rparr>
      else s)"

definition note_last_caster :: "pystr list option \<Rightarrow> tracker_state \<Rightarrow> tracker_state" where
  "note_last_caster player_spell_match s =
     (case player_spell_match of
        Some g \<Rightarrow> s\<lparr>last_spell_caster := Some (strip (group1 g))\<rparr>
      | None \<Rightarrow> s)"

text \<open>What the branch does once \<open>self.ougi_spells\<close> has been read.\<close>

definition cast_effects ::
  "tracker_state \<Rightarrow> pystr option \<Rightarrow> pystr \<Rightarrow> pystr list \<Rightarrow> tracker_state outcome" where
  "cast_effects s1 caster_name spell_name spells =
     (let is_ougi_spell = (spell_name \<in> set spells);
          s2 = bind_tracked_player is_ougi_spell caster_name s1;
          tracked_caster = is_tracked_caster caster_name s2;
          s4 = show_overlay is_ougi_spell tracked_caster (enter_combat tracked_caster s2)
      in if tracked_caster \<and> spell_name \<noteq> []
         then add_spell_to_timeline
                (s4\<lparr>last_etendard_cast := (spell_name = etendard_de_bravoure)\<rparr>)
                spell_name
         else Returned s4)"

definition cast_branch :: "tracker_state \<Rightarrow> pystr \<Rightarrow> tracker_state outcome" where
  "cast_branch s line =
     (let player_spell_match =
            (case re_search pat_player_spell_colon line of
               Some g \<Rightarrow> Some g
             | None \<Rightarrow> re_search pat_player_spell_space line);
          spell_name =
            (case re_search pat_spell_name line of
               Some g \<Rightarrow> strip (group1 g)
             | None \<Rightarrow> asc ''?'');
          caster_name = map_option (\<lambda>g. strip (group1 g)) player_spell_match;
          s1 = note_last_caster player_spell_match s
      in case ougi_spells s1 of
           None \<Rightarrow> Raised AttributeError s1
         | Some spells \<Rightarrow> cast_effects s1 caster_name spell_name spells)"

subsection \<open>Combat end\<close>

text \<open>
  The local variable \<open>combat_ended\<close> is assigned \<open>True\<close> in the two branches of
  the \<open>if\<close>/\<open>elif\<close> and nowhere else; \<open>None\<close> is the variable left unbound, and
  the \<open>if combat_ended:\<close> that follows raises \<open>UnboundLocalError\<close> on it.
\<close>

definition combat_ended_local :: "tracker_state \<Rightarrow> pystr \<Rightarrow> bool option" where
  "combat_ended_local s line =
     (if sublist combat_termine line \<or> sublist combat_termine_long line then Some True
      else if (re_search pat_hors_combat line \<noteq> None \<or> re_search pat_KO line \<noteq> None) \<and>
              is_sac_patate_combat s
      then Some True
      else None)"

text \<open>
  The body of \<open>if combat_ended:\<close>. After the resets and \<open>timeline_entries.clear()\<close>
  it reads \<open>self.current_turn_spells\<close>; what follows that read hides widgets and
  returns.
\<close>

definition combat_end :: "tracker_state \<Rightarrow> tracker_state outcome" where
  "combat_end s =
     (let s1 = s\<lparr>in_combat := False, is_sac_patate_combat := False, is_ougi_turn := False,
                  overlay_visible := False, rage := 0, tracker := 0, prey := False,
                  current_rage := 0, current_tracker := 0, current_prey := False,
                  pending_rage_loss := False, rage_loss_caster := None,
                  rage_loss_spell := None, timeline_entries := []\<rparr>
      in case current_turn_spells s1 of
           None \<Rightarrow> Raised AttributeError s1
         | Some spells \<Rightarrow> Returned (s1\<lparr>current_turn_spells := Some []\<rparr>))"

subsection \<open>The handlers after the combat-end test\<close>

definition rage_gain :: "tracker_state \<Rightarrow> pystr \<Rightarrow> pystr list \<Rightarrow> tracker_state outcome" where
  "rage_gain s line rage_match =
     (let s1 = (case re_search pat_player_rage line of
                  Some g \<Rightarrow> s\<lparr>tracked_player_name := Some (group1 g)\<rparr>
                | None \<Rightarrow> s)
      in case py_int (group1 rage_match) of
           Inl e \<Rightarrow> Raised e s1
         | Inr rage_value \<Rightarrow>
             if rage_value \<ge> 100
             then let s2 = s1\<lparr>rage := rage_value mod 100\<rparr>
                  in Returned (if prey s2 then s2\<lparr>prey := False, current_prey := False\<rparr> else s2)
             else Returned (s1\<lparr>rage := rage_value\<rparr>))"

definition cancel_confirmation :: "tracker_state \<Rightarrow> tracker_state" where
  "cancel_confirmation s =
     (if pending_rage_loss s
      then s\<lparr>pending_rage_loss := False, rage_loss_caster := None, rage_loss_spell := None\<rparr>
      else s)"

definition turn_passed :: "tracker_state \<Rightarrow> tracker_state" where
  "turn_passed s =
     (let turn_owner = last_spell_caster s;
          s1 = (if truthy turn_owner \<and> truthy (tracked_player_name s) \<and>
                   turn_owner = tracked_player_name s
                then cancel_confirmation (s\<lparr>is_ougi_turn := False, overlay_visible := False\<rparr>)
                else if truthy turn_owner then s
                else if truthy (tracked_player_name s)
                then cancel_confirmation (s\<lparr>is_ougi_turn := False, overlay_visible := False\<rparr>)
                else s);
          s2 = (if prey s1 then s1\<lparr>prey := False, current_prey := False\<rparr> else s1)
      in if length (timeline_entries s2) > 0 then s2\<lparr>timeline_entries := []\<rparr> else s2)"

definition tracker_gain_untagged :: "tracker_state \<Rightarrow> pystr list \<Rightarrow> tracker_state outcome" where
  "tracker_gain_untagged s tracker_match =
     (case py_int (group1 tracker_match) of
        Inl e \<Rightarrow> Raised e s
      | Inr tracker_value \<Rightarrow>
          Returned (s\<lparr>tracker := min tracker_value 50, current_tracker := min tracker_value 50\<rparr>))"

definition tracker_loss_untagged :: "tracker_state \<Rightarrow> pystr \<Rightarrow> tracker_state" where
  "tracker_loss_untagged s line =
     (case re_search pat_player_tracker_loss line of
        None \<Rightarrow> s
      | Some g \<Rightarrow>
          if truthy (tracked_player_name s) \<and> Some (group1 g) = tracked_player_name s
          then s\<lparr>tracker := max 0 (tracker s - 10), current_tracker := max 0 (tracker s - 10)\<rparr>
          else s)"

definition tracker_gain_tagged :: "tracker_state \<Rightarrow> pystr list \<Rightarrow> tracker_state outcome" where
  "tracker_gain_tagged s tracker_gain_match =
     (case py_int (group1 tracker_gain_match) of
        Inl e \<Rightarrow> Raised e s
      | Inr tracker_total \<Rightarrow>
          Returned (s\<lparr>tracker := min tracker_total 4, current_tracker := min tracker_total 4\<rparr>))"

definition tracker_loss_tagged :: "tracker_state \<Rightarrow> pystr \<Rightarrow> tracker_state" where
  "tracker_loss_tagged s line =
     (case re_search pat_player_tracker_loss line of
        None \<Rightarrow> s
      | Some g \<Rightarrow>
          if truthy (tracked_player_name s) \<and> Some (group1 g) = tracked_player_name s
          then s\<lparr>tracker := 0, current_tracker := 0\<rparr>
          else s)"

text \<open>
  The tagged-damage test returns only when its pattern matches; \<open>None\<close> is the
  fall-through to the tests below it.
\<close>

definition tracker_damage :: "tracker_state \<Rightarrow> pystr \<Rightarrow> tracker_state option" where
  "tracker_damage s line =
     (if sublist tracker_tag line \<and> sublist (asc ''PV'') line
      then (case re_search pat_tracker_damage line of
              Some g \<Rightarrow> Some (s\<lparr>tracker := 0, current_tracker := 0\<rparr>)
            | None \<Rightarrow> None)
      else None)"

definition preparation_gain :: "tracker_state \<Rightarrow> pystr list \<Rightarrow> tracker_state outcome" where
  "preparation_gain s rage_gain_match =
     (case py_int (group1 rage_gain_match) of
        Inl e \<Rightarrow> Raised e s
      | Inr rage_total \<Rightarrow> Returned (s\<lparr>rage := rage_total, current_rage := rage_total\<rparr>))"

text \<open>
  The damage confirmation, the last test of the function. It acts only while
  \<open>pending_rage_loss\<close> is set; both of its paths leave the function.
\<close>

definition damage_confirmation :: "tracker_state \<Rightarrow> pystr \<Rightarrow> tracker_state outcome" where
  "damage_confirmation s line =
     (case re_search pat_damage line of
        None \<Rightarrow> Returned s
      | Some g \<Rightarrow>
          if pending_rage_loss s
          then (case py_int (group2 g) of
                  Inl e \<Rightarrow> Raised e s
                | Inr damage_amount \<Rightarrow>
                    if rage_loss_caster s = tracked_player_name s
                    then Returned (s\<lparr>rage := 0, current_rage := 0, pending_rage_loss := False,
                                     rage_loss_caster := None, rage_loss_spell := None\<rparr>)
                    else Returned s)
          else Returned s)"

definition rest_of_line :: "tracker_state \<Rightarrow> pystr \<Rightarrow> tracker_state outcome" where
  "rest_of_line s line =
     (if \<not> sublist info_combat line then Returned s
      else case re_search pat_rage line of
        Some g \<Rightarrow> rage_gain s line g
      | None \<Rightarrow>
      if sublist reportee line \<or> sublist reportees line then Returned (turn_passed s)
      else case re_search pat_tracker line of
        Some g \<Rightarrow> tracker_gain_untagged s g
      | None \<Rightarrow>
      if sublist tracker_loss_isole line then Returned (tracker_loss_untagged s line)
      else case re_search pat_tracker_gain line of
        Some g \<Rightarrow> tracker_gain_tagged s g
      | None \<Rightarrow>
      if sublist tracker_loss_compulsion line then Returned (tracker_loss_tagged s line)
      else case tracker_damage s line of
        Some s' \<Rightarrow> Returned s'
      | None \<Rightarrow>
      (case re_search pat_preparation line of
         Some g \<Rightarrow> preparation_gain s g
       | None \<Rightarrow> damage_confirmation s line))"

subsection \<open>The whole function\<close>

text \<open>
  \<open>parse_body\<close> is the \<open>try\<close> block, \<open>parse_log_line\<close> the function with its
  \<open>except Exception: pass\<close>. The debug output of the function and its calls
  into the widgets are not part of the model.
\<close>

definition parse_body :: "env \<Rightarrow> tracker_state \<Rightarrow> pystr \<Rightarrow> tracker_state outcome" where
  "parse_body ev s line =
     (if line_hash ev line \<in> processed_lines s then Returned s
      else
        let s3 = after_dedup ev s line
        in if sublist lance_le_sort line then cast_branch s3 line
           else (case combat_ended_local s3 line of
                   None \<Rightarrow> Raised UnboundLocalError s3
                 | Some ended \<Rightarrow> if ended then combat_end s3 else rest_of_line s3 line))"

definition parse_log_line :: "env \<Rightarrow> tracker_state \<Rightarrow> pystr \<Rightarrow> tracker_state outcome" where
  "parse_log_line ev s line =
     (case parse_body ev s line of
        Returned s' \<Rightarrow> Returned s'
      | Raised e s' \<Rightarrow> if is_Exception e then Returned s' else Raised e s')"

text \<open>
  The states a run of the tracker can be in: from \<open>__init__\<close>, by lines of the
  log and ticks of the animation timer.
\<close>

inductive reachable :: "env \<Rightarrow> tracker_state \<Rightarrow> bool" for ev :: env where
  reach_init: "reachable ev init_state"
| reach_line: "reachable ev s \<Longrightarrow> parse_log_line ev s line = Returned s' \<Longrightarrow> reachable ev s'"
| reach_tick: "reachable ev s \<Longrightarrow> reachable ev (sync_display s)"
| reach_drop: "reachable ev s \<Longrightarrow> reachable ev (drop_faded_entry s)"

section \<open>Notions used by the properties\<close>

text \<open>
  A line the function classifies past its cast and combat-end tests, and the
  combat-end test as the function evaluates it (the special-encounter flag is
  read after the marker test of the same line has run).
\<close>

definition is_duplicate :: "env \<Rightarrow> tracker_state \<Rightarrow> pystr \<Rightarrow> bool" where
  "is_duplicate ev s line \<longleftrightarrow> line_hash ev line \<in> processed_lines s"

definition is_cast_line :: "pystr \<Rightarrow> bool" where
  "is_cast_line line \<longleftrightarrow> sublist lance_le_sort line"

definition has_combat_end_marker :: "tracker_state \<Rightarrow> pystr \<Rightarrow> bool" where
  "has_combat_end_marker s line \<longleftrightarrow>
     combat_ended_local (mark_sac_patate s line) line \<noteq> None"

text \<open>
  The counter events: the lines one of the gain or loss handlers tests for, and
  the actor name those handlers extract from the line (the stack-gain handlers
  extract none).
\<close>

definition is_counter_event :: "pystr \<Rightarrow> bool" where
  "is_counter_event line \<longleftrightarrow>
     re_search pat_rage line \<noteq> None \<or>
     re_search pat_tracker line \<noteq> None \<or>
     sublist tracker_loss_isole line \<or>
     re_search pat_tracker_gain line \<noteq> None \<or>
     sublist tracker_loss_compulsion line \<or>
     re_search pat_tracker_damage line \<noteq> None \<or>
     re_search pat_preparation line \<noteq> None \<or>
     re_search pat_damage line \<noteq> None"

definition event_actor :: "pystr \<Rightarrow> pystr option" where
  "event_actor line =
     (case re_search pat_player_rage line of
        Some g \<Rightarrow> Some (group1 g)
      | None \<Rightarrow>
          (case re_search pat_player_tracker_loss line of
             Some g \<Rightarrow> Some (group1 g)
           | None \<Rightarrow>
               (case re_search pat_damage line of
                  Some g \<Rightarrow> Some (strip (group1 g))
                | None \<Rightarrow> None)))"

text \<open>Several pushes in a row; a raise ends the sequence.\<close>

fun push_all :: "tracker_state \<Rightarrow> pystr list \<Rightarrow> tracker_state outcome" where
  "push_all s [] = Returned s"
| "push_all s (n # ns) =
     (case add_spell_to_timeline s n of
        Returned s' \<Rightarrow> push_all s' ns
      | Raised e s' \<Rightarrow> Raised e s')"

text \<open>A spell both dictionaries know, and the entry a push of it appends.\<close>

definition known_spell :: "(pystr \<times> pystr) list \<Rightarrow> pystr \<Rightarrow> bool" where
  "known_spell cost_map spell_name \<longleftrightarrow>
     (case (map_of cost_map (strip spell_name), map_of spell_icon_stem_map (strip spell_name)) of
        (Some cost_text, Some icon_stem) \<Rightarrow> cost_text \<noteq> [] \<and> icon_stem \<noteq> []
      | _ \<Rightarrow> False)"

definition entry_of :: "(pystr \<times> pystr) list \<Rightarrow> pystr \<Rightarrow> entry" where
  "entry_of cost_map spell_name =
     \<lparr> spell = strip spell_name,
       cost = filter (\<lambda>c. c \<noteq> 32)
                (case map_of cost_map (strip spell_name) of None \<Rightarrow> [] | Some cost_text \<Rightarrow> cost_text) \<rparr>"

text \<open>
  A state that differs from the one \<open>__init__\<close> builds at most in the
  deduplication window, the special-encounter flag and the last caster.
\<close>

definition untouched :: "tracker_state \<Rightarrow> bool" where
  "untouched s \<longleftrightarrow>
     rage s = 0 \<and> tracker s = 0 \<and> \<not> prey s \<and>
     current_rage s = 0 \<and> current_tracker s = 0 \<and> \<not> current_prey s \<and>
     \<not> pending_rage_loss s \<and> rage_loss_caster s = None \<and> rage_loss_spell s = None \<and>
     \<not> in_combat s \<and> tracked_player_name s = None \<and>
     \<not> is_ougi_turn s \<and> \<not> overlay_visible s \<and> \<not> last_etendard_cast s \<and>
     timeline_entries s = [] \<and>
     ougi_spells s = None \<and> current_turn_spells s = None \<and> spell_cost_map s = None"

section \<open>Example inputs\<close>

definition example_env :: env where
  "example_env = \<lparr> py_hash = (\<lambda>t. int (length t)), set_order = sorted_list_of_set \<rparr>"

definition bob :: pystr where
  "bob = asc ''Bob''"

definition alice :: pystr where
  "alice = asc ''Alice''"

definition line_rage_140 :: pystr where
  "line_rage_140 = asc ''[Information (combat)] Bob: rage (+140 Niv.)''"

definition line_tracker_80 :: pystr where
  "line_tracker_80 = asc ''[Information (combat)] Bob: tracker (+80 Niv.)''"

definition line_tracker_80_tagged :: pystr where
  "line_tracker_80_tagged = asc ''[Information (combat)] Bob: tracker (+80 Niv.) (Compulsion)''"

definition line_turn_pass :: pystr where
  "line_turn_pass = asc ''[Information (combat)] 12 secondes '' @ reportees"

definition line_damage :: pystr where
  "line_damage = asc ''[Information (combat)] Sac: -64 PV (Feu)''"

definition line_sac_marker :: pystr where
  "line_sac_marker = sac_a_patate @ asc '': abandonner''"

definition line_cast :: pystr where
  "line_cast = asc ''[Information (combat)] Bob: lance le sort Fulgur''"

definition line_plain :: pystr where
  "line_plain = asc ''hello''"

definition example_cost_map :: "(pystr \<times> pystr) list" where
  "example_cost_map =
     [(asc ''Fulgur'', asc ''3 PA''), (asc ''Jugement'', asc ''1 PA''),
      (asc ''Ravage'', asc ''5 PA''), (asc ''Jabs'', asc ''3 PA''),
      (asc ''Rafale'', asc ''1 PA''), (asc ''Bond'', asc ''4 PA''),
      (asc ''Charge'', asc ''1 PA'')]"

definition six_spells :: "pystr list" where
  "six_spells =
     [asc ''Fulgur'', asc ''Jugement'', asc ''Ravage'', asc ''Jabs'', asc ''Rafale'', asc ''Bond'']"

definition state_with_costs :: tracker_state where
  "state_with_costs = init_state\<lparr>spell_cost_map := Some example_cost_map\<rparr>"

definition state_pending :: tracker_state where
  "state_pending =
     init_state\<lparr>rage := 20, pending_rage_loss := True, rage_loss_caster := Some bob,
                 tracked_player_name := Some bob, last_spell_caster := Some bob,
                 is_ougi_turn := True, overlay_visible := True\<rparr>"

definition state_full_window :: tracker_state where
  "state_full_window = init_state\<lparr>processed_lines := {6..1005}\<rparr>"

definition state_alice :: tracker_state where
  "state_alice = init_state\<lparr>rage := 30, tracker := 20, tracked_player_name := Some alice\<rparr>"

definition state_seen :: tracker_state where
  "state_seen = init_state\<lparr>processed_lines := {5}\<rparr>"

definition state_bob_fight :: tracker_state where
  "state_bob_fight =
     init_state\<lparr>rage := 40, tracker := 3, prey := True, in_combat := True,
                 tracked_player_name := Some bob,
                 timeline_entries := [\<lparr> spell = asc ''Fulgur'', cost = asc ''3PA'' \<rparr>]\<rparr>"

section \<open>Basic facts\<close>

lemmas literal_defs =
  asc_def e_acute_def E_acute_def e_grave_def a_grave_def lance_le_sort_def info_combat_def
  sac_a_patate_def quand_tu_auras_fini_def abandonner_def abandonne_le_combat_def
  combat_termine_def combat_termine_long_def est_hors_combat_def est_KO_def reportee_def
  reportees_def tracker_loss_isole_def tracker_loss_compulsion_def tracker_tag_def
  etendard_de_bravoure_def

lemmas class_defs =
  is_space_def is_digit_def digit_value_def decimal_zeros_def not_colon_def
  not_paren_nl_def not_rparen_def dot_def

lemmas pattern_defs =
  pat_player_spell_colon_def pat_player_spell_space_def pat_spell_name_def
  pat_hors_combat_def pat_KO_def pat_rage_def pat_player_rage_def pat_tracker_def
  pat_player_tracker_loss_def pat_tracker_gain_def pat_tracker_damage_def
  pat_preparation_def pat_damage_def

lemmas line_defs =
  line_rage_140_def line_tracker_80_def line_tracker_80_tagged_def line_turn_pass_def
  line_damage_def line_sac_marker_def line_cast_def line_plain_def bob_def alice_def

lemma is_Exception_all: "is_Exception e"
  by (cases e) simp_all

lemma parse_log_line_state:
  "parse_log_line ev s line = Returned (outcome_state (parse_body ev s line))"
  by (cases "parse_body ev s line") (simp_all add: parse_log_line_def is_Exception_all)

lemma after_dedup_eq:
  "after_dedup ev s line =
     s\<lparr>processed_lines := processed_lines (after_dedup ev s line),
       is_sac_patate_combat := (is_sac_patate_combat s \<or> has_sac_patate_marker line)\<rparr>"
  by (simp add: after_dedup_def trim_processed_def mark_sac_patate_def)

lemma after_dedup_small:
  assumes "finite (processed_lines s)" and "card (processed_lines s) < 1000"
  shows "after_dedup ev s line =
           s\<lparr>processed_lines := insert (line_hash ev line) (processed_lines s),
             is_sac_patate_combat := (is_sac_patate_combat s \<or> has_sac_patate_marker line)\<rparr>"
  using assms by (simp add: after_dedup_def trim_processed_def mark_sac_patate_def card_insert_if)

lemma combat_ended_local_after_dedup:
  "combat_ended_local (after_dedup ev s line) line = combat_ended_local (mark_sac_patate s line) line"
  by (simp add: combat_ended_local_def after_dedup_def trim_processed_def mark_sac_patate_def)

lemma combat_ended_local_cases:
  "combat_ended_local s line = None \<or> combat_ended_local s line = Some True"
  by (simp add: combat_ended_local_def)

lemma parse_body_unclassified:
  assumes "\<not> is_cast_line line" and "\<not> has_combat_end_marker s line"
  shows "parse_body ev s line =
           (if is_duplicate ev s line then Returned s
            else Raised UnboundLocalError (after_dedup ev s line))"
  using assms
  by (simp add: parse_body_def is_cast_line_def has_combat_end_marker_def is_duplicate_def
      combat_ended_local_after_dedup Let_def)

lemma unclassified_frame:
  assumes "\<not> is_cast_line line" and "\<not> has_combat_end_marker s line"
  shows "\<exists>w f. parse_log_line ev s line =
                  Returned (s\<lparr>processed_lines := w, is_sac_patate_combat := f\<rparr>)"
proof (cases "is_duplicate ev s line")
  case True
  with assms have "parse_log_line ev s line = Returned s"
    by (simp add: parse_log_line_state parse_body_unclassified)
  then have "parse_log_line ev s line =
      Returned (s\<lparr>processed_lines := processed_lines s,
                  is_sac_patate_combat := is_sac_patate_combat s\<rparr>)"
    by simp
  then show ?thesis by blast
next
  case False
  with assms have "parse_log_line ev s line = Returned (after_dedup ev s line)"
    by (simp add: parse_log_line_state parse_body_unclassified)
  then show ?thesis
    using after_dedup_eq [of ev s line] by metis
qed

lemma fresh_line_unclassified:
  assumes "\<not> is_cast_line line" and "\<not> has_combat_end_marker s line"
    and "\<not> has_sac_patate_marker line"
    and "finite (processed_lines s)" and "card (processed_lines s) < 1000"
    and "line_hash ev line \<notin> processed_lines s"
  shows "parse_body ev s line =
           Raised UnboundLocalError
             (s\<lparr>processed_lines := insert (line_hash ev line) (processed_lines s)\<rparr>)"
  using assms
  by (simp add: parse_body_unclassified is_duplicate_def after_dedup_small)

section \<open>Lines that are neither casts nor combat ends\<close>

text \<open>
  C9 (as amended). For every line that holds neither the cast phrase nor a combat-end
  marker: if the deduplicator accepts the line, the function reads \<open>combat_ended\<close>
  while it is unbound and raises \<open>UnboundLocalError\<close> in the state reached right
  after deduplication and the special-encounter test, so no handler behind the
  combat-end test runs; if the line is a duplicate, the function returns at the
  duplicate test and never reads the variable. In both cases the handler of
  \<open>parse_log_line\<close> swallows the error, and the state differs from the one before
  at most in the deduplication window and the special-encounter flag: no resource
  field changes.
\<close>

theorem unbound_combat_ended:
  assumes "\<not> is_cast_line line" and "\<not> has_combat_end_marker s line"
  shows "(\<not> is_duplicate ev s line \<longrightarrow>
            parse_body ev s line = Raised UnboundLocalError (after_dedup ev s line)) \<and>
         (is_duplicate ev s line \<longrightarrow> parse_body ev s line = Returned s) \<and>
         (\<exists>w f. parse_log_line ev s line =
                  Returned (s\<lparr>processed_lines := w, is_sac_patate_combat := f\<rparr>))"
  using assms unclassified_frame [OF assms, of ev]
  by (simp add: parse_body_unclassified)

lemma line_plain_facts:
  "\<not> is_cast_line line_plain"
  "\<not> has_combat_end_marker s line_plain"
  by (simp_all add: is_cast_line_def has_combat_end_marker_def combat_ended_local_def
      mark_sac_patate_def has_sac_patate_marker_def line_defs literal_defs pattern_defs sublist_code)

lemma line_plain_hash: "line_hash example_env line_plain = 5"
  by (simp add: line_hash_def example_env_def strip_def line_defs literal_defs is_space_def)

lemma line_plain_no_marker: "\<not> has_sac_patate_marker line_plain"
  by (simp add: has_sac_patate_marker_def line_defs literal_defs sublist_code)

lemma after_dedup_init_plain:
  "after_dedup example_env init_state line_plain = init_state\<lparr>processed_lines := {5}\<rparr>"
  by (simp add: after_dedup_def trim_processed_def mark_sac_patate_def line_plain_hash
      line_plain_no_marker init_state_def)

text \<open>The theorem at a fresh line of a fresh tracker.\<close>

theorem unbound_combat_ended_witness:
  "\<not> is_cast_line line_plain \<and> \<not> has_combat_end_marker init_state line_plain \<and>
   \<not> is_duplicate example_env init_state line_plain \<and>
   parse_body example_env init_state line_plain =
     Raised UnboundLocalError (init_state\<lparr>processed_lines := {5}\<rparr>) \<and>
   (\<exists>w f. parse_log_line example_env init_state line_plain =
            Returned (init_state\<lparr>processed_lines := w, is_sac_patate_combat := f\<rparr>))"
proof -
  have dup: "\<not> is_duplicate example_env init_state line_plain"
    by (simp add: is_duplicate_def init_state_def)
  show ?thesis
    using unbound_combat_ended [of line_plain init_state example_env] dup
    by (simp add: line_plain_facts after_dedup_init_plain)
qed

text \<open>
  A line the window already holds returns at the duplicate test: nothing is raised,
  \<open>combat_ended\<close> is never read.
\<close>

theorem duplicate_line_returns:
  "\<not> is_cast_line line_plain \<and> \<not> has_combat_end_marker state_seen line_plain \<and>
   parse_body example_env state_seen line_plain = Returned state_seen"
  by (simp add: line_plain_facts parse_body_def line_plain_hash state_seen_def)

section \<open>Wrap-counter gains\<close>

lemma line_rage_140_facts:
  "\<not> is_cast_line line_rage_140"
  "\<not> has_sac_patate_marker line_rage_140"
  "\<not> has_combat_end_marker s line_rage_140"
  by (simp_all add: is_cast_line_def has_combat_end_marker_def combat_ended_local_def
      mark_sac_patate_def has_sac_patate_marker_def line_defs literal_defs pattern_defs sublist_code)

lemma line_rage_140_matches:
  "sublist info_combat line_rage_140"
  "re_search pat_rage line_rage_140 = Some [asc ''140'']"
  "re_search pat_player_rage line_rage_140 = Some [bob]"
  by (simp_all add: line_defs literal_defs pattern_defs class_defs sublist_code)

lemma py_int_140: "py_int (asc ''140'') = Inr 140"
  by (simp add: py_int_def digits_value_def asc_def class_defs)

text \<open>
  C1. The claim: a wrap-counter gain line with total 140 sets the wrap counter to 40
  and clears the flag \<open>prey\<close>. The code on that line, from a fresh tracker with the
  flag set: the line is neither a cast nor a combat end, the read of the unbound
  \<open>combat_ended\<close> raises, and the function ends with the wrap counter still 0 and
  the flag still set. The gain handler is never entered.
\<close>

theorem rage_gain_140_not_applied:
  "parse_body ev (init_state\<lparr>prey := True\<rparr>) line_rage_140 =
     Raised UnboundLocalError
       (init_state\<lparr>prey := True, processed_lines := {line_hash ev line_rage_140}\<rparr>) \<and>
   parse_log_line ev (init_state\<lparr>prey := True\<rparr>) line_rage_140 =
     Returned (init_state\<lparr>prey := True, processed_lines := {line_hash ev line_rage_140}\<rparr>) \<and>
   rage (init_state\<lparr>prey := True, processed_lines := {line_hash ev line_rage_140}\<rparr>) = 0 \<and>
   prey (init_state\<lparr>prey := True, processed_lines := {line_hash ev line_rage_140}\<rparr>)"
proof -
  have "parse_body ev (init_state\<lparr>prey := True\<rparr>) line_rage_140 =
     Raised UnboundLocalError
       (init_state\<lparr>prey := True, processed_lines := {line_hash ev line_rage_140}\<rparr>)"
    using fresh_line_unclassified [of line_rage_140 "init_state\<lparr>prey := True\<rparr>" ev]
    by (simp add: line_rage_140_facts init_state_def)
  then show ?thesis
    by (simp add: parse_log_line_state init_state_def)
qed

text \<open>
  What the handler behind the combat-end test would do with the same line, and with
  any total: the value the claim describes.
\<close>

lemma rage_gain_handler_140:
  "rest_of_line (init_state\<lparr>prey := True\<rparr>) line_rage_140 =
     Returned (init_state\<lparr>rage := 40, tracked_player_name := Some bob\<rparr>)"
  by (simp add: rest_of_line_def rage_gain_def line_rage_140_matches py_int_140 init_state_def)

lemma rage_gain_handler:
  assumes "py_int (group1 g) = Inr n"
  shows "\<exists>s'. rage_gain s line g = Returned s' \<and>
              rage s' = (if n \<ge> 100 then n mod 100 else n) \<and>
              prey s' = (prey s \<and> n < 100)"
  using assms by (auto simp: rage_gain_def Let_def split: option.splits)


section \<open>Stack-counter gains\<close>

lemma line_tracker_80_facts:
  "\<not> is_cast_line line_tracker_80"
  "\<not> has_sac_patate_marker line_tracker_80"
  "\<not> has_combat_end_marker s line_tracker_80"
  by (simp_all add: is_cast_line_def has_combat_end_marker_def combat_ended_local_def
      mark_sac_patate_def has_sac_patate_marker_def line_defs literal_defs pattern_defs sublist_code)

lemma line_tracker_80_tagged_facts:
  "\<not> is_cast_line line_tracker_80_tagged"
  "\<not> has_sac_patate_marker line_tracker_80_tagged"
  "\<not> has_combat_end_marker s line_tracker_80_tagged"
  by (simp_all add: is_cast_line_def has_combat_end_marker_def combat_ended_local_def
      mark_sac_patate_def has_sac_patate_marker_def line_defs literal_defs pattern_defs sublist_code)

lemma line_tracker_80_matches:
  "sublist info_combat line_tracker_80"
  "re_search pat_rage line_tracker_80 = None"
  "\<not> sublist reportee line_tracker_80"
  "\<not> sublist reportees line_tracker_80"
  "re_search pat_tracker line_tracker_80 = Some [asc ''80'']"
  by (simp_all add: line_defs literal_defs pattern_defs class_defs sublist_code)

lemma line_tracker_80_tagged_matches:
  "sublist info_combat line_tracker_80_tagged"
  "re_search pat_rage line_tracker_80_tagged = None"
  "\<not> sublist reportee line_tracker_80_tagged"
  "\<not> sublist reportees line_tracker_80_tagged"
  "re_search pat_tracker line_tracker_80_tagged = Some [asc ''80'']"
  "re_search pat_tracker_gain line_tracker_80_tagged = Some [asc ''80'', asc ''Compulsion'']"
  by (simp_all add: line_defs literal_defs pattern_defs class_defs sublist_code)

lemma py_int_80: "py_int (asc ''80'') = Inr 80"
  by (simp add: py_int_def digits_value_def asc_def class_defs)

text \<open>
  C2. The claim: a gain of 80 sets the stack counter to 50 on the untagged path and
  to 4 on the tagged path. The code on both lines, from a fresh tracker: the read
  of the unbound \<open>combat_ended\<close> raises and the stack counter stays 0.
\<close>

theorem tracker_gain_80_not_applied:
  "parse_log_line ev init_state line_tracker_80 =
     Returned (init_state\<lparr>processed_lines := {line_hash ev line_tracker_80}\<rparr>) \<and>
   parse_log_line ev init_state line_tracker_80_tagged =
     Returned (init_state\<lparr>processed_lines := {line_hash ev line_tracker_80_tagged}\<rparr>) \<and>
   tracker (init_state\<lparr>processed_lines := {line_hash ev line_tracker_80}\<rparr>) = 0 \<and>
   tracker (init_state\<lparr>processed_lines := {line_hash ev line_tracker_80_tagged}\<rparr>) = 0"
proof -
  have a: "parse_body ev init_state line_tracker_80 =
     Raised UnboundLocalError (init_state\<lparr>processed_lines := {line_hash ev line_tracker_80}\<rparr>)"
    using fresh_line_unclassified [of line_tracker_80 init_state ev]
    by (simp add: line_tracker_80_facts init_state_def)
  have b: "parse_body ev init_state line_tracker_80_tagged =
     Raised UnboundLocalError
       (init_state\<lparr>processed_lines := {line_hash ev line_tracker_80_tagged}\<rparr>)"
    using fresh_line_unclassified [of line_tracker_80_tagged init_state ev]
    by (simp add: line_tracker_80_tagged_facts init_state_def)
  from a b show ?thesis
    by (simp add: parse_log_line_state init_state_def)
qed

text \<open>
  The handlers behind the combat-end test: the untagged pattern is tested first and
  also matches the tagged line, so both lines would set 50 there; the tagged
  handler alone would set 4.
\<close>

lemma tracker_gain_handlers_80:
  "rest_of_line init_state line_tracker_80 =
     Returned (init_state\<lparr>tracker := 50, current_tracker := 50\<rparr>)"
  "rest_of_line init_state line_tracker_80_tagged =
     Returned (init_state\<lparr>tracker := 50, current_tracker := 50\<rparr>)"
  "tracker_gain_tagged init_state [asc ''80'', asc ''Compulsion''] =
     Returned (init_state\<lparr>tracker := 4, current_tracker := 4\<rparr>)"
  by (simp_all add: rest_of_line_def tracker_gain_untagged_def tracker_gain_tagged_def
      line_tracker_80_matches line_tracker_80_tagged_matches py_int_80)

section \<open>Turn passes\<close>

lemma line_turn_pass_facts:
  "\<not> is_cast_line line_turn_pass"
  "\<not> has_sac_patate_marker line_turn_pass"
  "\<not> has_combat_end_marker s line_turn_pass"
  by (simp_all add: is_cast_line_def has_combat_end_marker_def combat_ended_local_def
      mark_sac_patate_def has_sac_patate_marker_def line_defs literal_defs pattern_defs sublist_code)

lemma line_turn_pass_matches:
  "sublist info_combat line_turn_pass"
  "re_search pat_rage line_turn_pass = None"
  "sublist reportees line_turn_pass"
  by (simp_all add: line_defs literal_defs pattern_defs class_defs sublist_code)

text \<open>
  C5. The claim: a turn-pass line whose turn owner is the tracked actor cancels an
  armed confirmation. The code on such a line, with the confirmation armed and the
  last caster equal to the tracked actor: the read of the unbound \<open>combat_ended\<close>
  raises and the confirmation stays armed.
\<close>

theorem turn_pass_keeps_pending:
  "parse_log_line ev state_pending line_turn_pass =
     Returned (state_pending\<lparr>processed_lines := {line_hash ev line_turn_pass}\<rparr>) \<and>
   last_spell_caster state_pending = tracked_player_name state_pending \<and>
   pending_rage_loss state_pending \<and>
   pending_rage_loss (state_pending\<lparr>processed_lines := {line_hash ev line_turn_pass}\<rparr>)"
proof -
  have "parse_body ev state_pending line_turn_pass =
     Raised UnboundLocalError (state_pending\<lparr>processed_lines := {line_hash ev line_turn_pass}\<rparr>)"
    using fresh_line_unclassified [of line_turn_pass state_pending ev]
    by (simp add: line_turn_pass_facts state_pending_def init_state_def)
  then show ?thesis
    by (simp add: parse_log_line_state state_pending_def init_state_def)
qed

text \<open>The turn-pass handler behind the combat-end test would cancel it.\<close>

lemma turn_pass_handler:
  "rest_of_line state_pending line_turn_pass =
     Returned (state_pending\<lparr>is_ougi_turn := False, overlay_visible := False,
                 pending_rage_loss := False, rage_loss_caster := None\<rparr>)"
  by (simp add: rest_of_line_def line_turn_pass_matches turn_passed_def cancel_confirmation_def
      truthy_def state_pending_def init_state_def bob_def asc_def Let_def)

section \<open>The ownership gate\<close>

text \<open>
  C3. For every line that the function takes for a counter gain or loss (a line past
  its cast and combat-end tests that one of the gain or loss handlers tests for)
  and whose actor differs from the tracked actor, processing the line leaves the
  wrap counter and the stack counter unchanged.
\<close>

theorem ownership_gate:
  assumes "\<not> is_cast_line line" and "\<not> has_combat_end_marker s line"
    and "is_counter_event line" and "event_actor line \<noteq> tracked_player_name s"
  shows "\<exists>s'. parse_log_line ev s line = Returned s' \<and> rage s' = rage s \<and> tracker s' = tracker s"
proof -
  obtain w f where "parse_log_line ev s line =
      Returned (s\<lparr>processed_lines := w, is_sac_patate_combat := f\<rparr>)"
    using unclassified_frame [OF assms(1,2)] by blast
  then show ?thesis by simp
qed

lemma line_rage_140_event:
  "is_counter_event line_rage_140"
  "event_actor line_rage_140 = Some bob"
  by (simp_all add: is_counter_event_def event_actor_def line_rage_140_matches)

text \<open>A gain line of Bob while Alice is tracked.\<close>

theorem ownership_gate_witness:
  "\<not> is_cast_line line_rage_140 \<and> \<not> has_combat_end_marker state_alice line_rage_140 \<and>
   is_counter_event line_rage_140 \<and> event_actor line_rage_140 \<noteq> tracked_player_name state_alice \<and>
   (\<exists>s'. parse_log_line example_env state_alice line_rage_140 = Returned s' \<and>
         rage s' = 30 \<and> tracker s' = 20)"
  using ownership_gate [of line_rage_140 state_alice example_env]
  by (simp add: line_rage_140_facts line_rage_140_event state_alice_def init_state_def
      bob_def alice_def asc_def)

section \<open>Combat end\<close>

lemma combat_end_marker_true:
  assumes "has_combat_end_marker s line"
  shows "combat_ended_local (after_dedup ev s line) line = Some True"
  using assms
  by (simp add: has_combat_end_marker_def combat_ended_local_after_dedup)
     (simp add: combat_ended_local_def split: if_splits)

lemma parse_body_combat_end:
  assumes "\<not> is_duplicate ev s line" and "\<not> is_cast_line line"
    and "has_combat_end_marker s line"
  shows "parse_body ev s line = combat_end (after_dedup ev s line)"
  using assms combat_end_marker_true [OF assms(3), of ev]
  by (simp add: parse_body_def is_duplicate_def is_cast_line_def Let_def)

lemma combat_end_fields:
  "rage (outcome_state (combat_end s)) = 0"
  "tracker (outcome_state (combat_end s)) = 0"
  "\<not> prey (outcome_state (combat_end s))"
  "timeline_entries (outcome_state (combat_end s)) = []"
  "\<not> pending_rage_loss (outcome_state (combat_end s))"
  "rage_loss_caster (outcome_state (combat_end s)) = None"
  "rage_loss_spell (outcome_state (combat_end s)) = None"
  "\<not> in_combat (outcome_state (combat_end s))"
  "\<not> is_sac_patate_combat (outcome_state (combat_end s))"
  "\<not> is_ougi_turn (outcome_state (combat_end s))"
  "\<not> overlay_visible (outcome_state (combat_end s))"
  "tracked_player_name (outcome_state (combat_end s)) = tracked_player_name s"
  by (simp_all add: combat_end_def Let_def split: option.splits)

lemma after_dedup_tracked:
  "tracked_player_name (after_dedup ev s line) = tracked_player_name s"
  by (simp add: after_dedup_def trim_processed_def mark_sac_patate_def)

text \<open>
  C4 (as amended). For every state, a combat-end line that the deduplicator accepts
  resets the wrap counter to 0, the stack counter to 0 and the flag to false, clears
  the timeline and the pending confirmation (with its caster and spell), and clears
  the combat, special-encounter and visibility flags. The tracked-actor binding is
  left as it was. (The function reaches these resets whether or not the read of
  \<open>current_turn_spells\<close> that follows them raises.)
\<close>

theorem combat_end_resets:
  assumes "\<not> is_duplicate ev s line" and "\<not> is_cast_line line"
    and "has_combat_end_marker s line"
  shows "\<exists>s'. parse_log_line ev s line = Returned s' \<and>
              rage s' = 0 \<and> tracker s' = 0 \<and> \<not> prey s' \<and>
              timeline_entries s' = [] \<and>
              \<not> pending_rage_loss s' \<and> rage_loss_caster s' = None \<and> rage_loss_spell s' = None \<and>
              \<not> in_combat s' \<and> \<not> is_sac_patate_combat s' \<and>
              \<not> is_ougi_turn s' \<and> \<not> overlay_visible s' \<and>
              tracked_player_name s' = tracked_player_name s"
  by (simp add: parse_log_line_state parse_body_combat_end [OF assms] combat_end_fields
      after_dedup_tracked)

lemma combat_termine_long_facts:
  "\<not> is_cast_line combat_termine_long"
  "has_combat_end_marker s combat_termine_long"
  by (simp_all add: is_cast_line_def has_combat_end_marker_def combat_ended_local_def
      literal_defs sublist_code)

lemma combat_termine_long_fresh:
  "\<not> is_duplicate example_env state_bob_fight combat_termine_long"
  by (simp add: is_duplicate_def state_bob_fight_def init_state_def)

text \<open>A fight of Bob with counters, flag and timeline set, ended by the long end phrase.\<close>

theorem combat_end_resets_witness:
  "\<not> is_duplicate example_env state_bob_fight combat_termine_long \<and>
   \<not> is_cast_line combat_termine_long \<and>
   has_combat_end_marker state_bob_fight combat_termine_long \<and>
   rage state_bob_fight = 40 \<and> tracker state_bob_fight = 3 \<and> prey state_bob_fight \<and>
   timeline_entries state_bob_fight \<noteq> [] \<and>
   (\<exists>s'. parse_log_line example_env state_bob_fight combat_termine_long = Returned s' \<and>
         rage s' = 0 \<and> tracker s' = 0 \<and> \<not> prey s' \<and> timeline_entries s' = [] \<and>
         \<not> pending_rage_loss s' \<and> tracked_player_name s' = Some bob)"
proof -
  have h1: "\<not> is_duplicate example_env state_bob_fight combat_termine_long"
    by (rule combat_termine_long_fresh)
  have h2: "\<not> is_cast_line combat_termine_long"
    and h3: "has_combat_end_marker state_bob_fight combat_termine_long"
    by (simp_all add: combat_termine_long_facts)
  have tracked: "tracked_player_name state_bob_fight = Some bob"
    by (simp add: state_bob_fight_def)
  from combat_end_resets [OF h1 h2 h3] tracked
  have "\<exists>s'. parse_log_line example_env state_bob_fight combat_termine_long = Returned s' \<and>
         rage s' = 0 \<and> tracker s' = 0 \<and> \<not> prey s' \<and> timeline_entries s' = [] \<and>
         \<not> pending_rage_loss s' \<and> tracked_player_name s' = Some bob"
    by auto
  with h1 h2 h3 show ?thesis
    by (simp add: state_bob_fight_def init_state_def)
qed

text \<open>The claim's tracked-actor part fails there: Bob stays bound after the combat end.\<close>

theorem combat_end_keeps_tracked_actor:
  "\<not> is_cast_line combat_termine_long \<and>
   has_combat_end_marker state_bob_fight combat_termine_long \<and>
   tracked_player_name
     (outcome_state (parse_log_line example_env state_bob_fight combat_termine_long)) =
   Some bob"
  by (simp add: combat_termine_long_facts parse_log_line_state
      parse_body_combat_end [OF combat_termine_long_fresh] combat_end_fields after_dedup_tracked)
     (simp add: state_bob_fight_def init_state_def)


section \<open>Failures of line processing\<close>

lemma add_spell_to_timeline_raises:
  "add_spell_to_timeline s n = Raised e sf \<Longrightarrow> e = AttributeError"
  by (auto simp: add_spell_to_timeline_def Let_def split: option.splits if_splits prod.splits)

lemma cast_effects_raises:
  "cast_effects s c n spells = Raised e sf \<Longrightarrow> e = AttributeError"
  by (auto simp: cast_effects_def Let_def split: if_splits dest: add_spell_to_timeline_raises)

lemma cast_branch_raises:
  "cast_branch s line = Raised e sf \<Longrightarrow> e = AttributeError"
  by (cases "ougi_spells
        (note_last_caster
          (case re_search pat_player_spell_colon line of
             Some g \<Rightarrow> Some g
           | None \<Rightarrow> re_search pat_player_spell_space line) s)")
     (auto simp: cast_branch_def Let_def dest: cast_effects_raises)

lemma combat_end_raises:
  "combat_end s = Raised e sf \<Longrightarrow> e = AttributeError"
  by (auto simp: combat_end_def Let_def split: option.splits)

lemma parse_body_unbound:
  assumes "parse_body ev s line = Raised UnboundLocalError sf"
  shows "sf = after_dedup ev s line"
proof -
  from assms have nd: "line_hash ev line \<notin> processed_lines s"
    by (auto simp: parse_body_def)
  show ?thesis
  proof (cases "sublist lance_le_sort line")
    case True
    with assms nd have "cast_branch (after_dedup ev s line) line = Raised UnboundLocalError sf"
      by (simp add: parse_body_def Let_def)
    then show ?thesis by (auto dest: cast_branch_raises)
  next
    case False
    show ?thesis
      using combat_ended_local_cases [of "after_dedup ev s line" line]
    proof
      assume "combat_ended_local (after_dedup ev s line) line = None"
      with assms nd False show ?thesis
        by (simp add: parse_body_def Let_def)
    next
      assume "combat_ended_local (after_dedup ev s line) line = Some True"
      with assms nd False have "combat_end (after_dedup ev s line) = Raised UnboundLocalError sf"
        by (simp add: parse_body_def Let_def)
      then show ?thesis by (auto dest: combat_end_raises)
    qed
  qed
qed

text \<open>
  C6 (as amended). For every line and every state, line processing returns to its
  caller: each exception of the body is caught. When the body fails, the state
  after the line is the state the body had reached at the failure, so assignments
  made before the failure are kept. When the failure is the read of the unbound
  \<open>combat_ended\<close> (the line matched no cast and no combat-end rule), that state
  differs from the one before the line at most in the deduplication window and the
  special-encounter flag.
\<close>

theorem line_processing_never_raises:
  "\<exists>s'. parse_log_line ev s line = Returned s' \<and>
        (\<forall>e sf. parse_body ev s line = Raised e sf \<longrightarrow> s' = sf) \<and>
        (\<forall>sf. parse_body ev s line = Raised UnboundLocalError sf \<longrightarrow>
              (\<exists>w f. s' = s\<lparr>processed_lines := w, is_sac_patate_combat := f\<rparr>))"
proof -
  have "\<exists>w f. sf = s\<lparr>processed_lines := w, is_sac_patate_combat := f\<rparr>"
    if "parse_body ev s line = Raised UnboundLocalError sf" for sf
    using parse_body_unbound [OF that] after_dedup_eq [of ev s line] by metis
  then show ?thesis
    by (auto simp: parse_log_line_state)
qed

lemma line_sac_marker_facts:
  "\<not> is_cast_line line_sac_marker"
  "has_sac_patate_marker line_sac_marker"
  "\<not> has_combat_end_marker s line_sac_marker"
  "line_hash example_env line_sac_marker = 25"
  by (simp_all add: is_cast_line_def has_combat_end_marker_def combat_ended_local_def
      mark_sac_patate_def has_sac_patate_marker_def line_defs literal_defs pattern_defs
      sublist_code line_hash_def example_env_def strip_def is_space_def)

lemma parse_body_sac_marker:
  "parse_body example_env init_state line_sac_marker =
     Raised UnboundLocalError
       (init_state\<lparr>processed_lines := {25}, is_sac_patate_combat := True\<rparr>)"
proof -
  have "\<not> is_duplicate example_env init_state line_sac_marker"
    by (simp add: is_duplicate_def init_state_def)
  moreover have "after_dedup example_env init_state line_sac_marker =
      init_state\<lparr>processed_lines := {25}, is_sac_patate_combat := True\<rparr>"
    by (simp add: after_dedup_def trim_processed_def mark_sac_patate_def line_sac_marker_facts
        init_state_def)
  ultimately show ?thesis
    by (simp add: parse_body_unclassified line_sac_marker_facts)
qed

text \<open>A special-encounter marker line on a fresh tracker: the body fails, the caller sees a return.\<close>

theorem line_processing_never_raises_witness:
  "parse_body example_env init_state line_sac_marker =
     Raised UnboundLocalError
       (init_state\<lparr>processed_lines := {25}, is_sac_patate_combat := True\<rparr>) \<and>
   parse_log_line example_env init_state line_sac_marker =
     Returned (init_state\<lparr>processed_lines := {25}, is_sac_patate_combat := True\<rparr>)"
  using line_processing_never_raises [of example_env init_state line_sac_marker]
  by (auto simp: parse_body_sac_marker)

text \<open>
  The same line refutes "a failing line leaves the state as it was": the body
  fails, and the special-encounter flag has changed.
\<close>

theorem failed_line_changes_state:
  "parse_body example_env init_state line_sac_marker =
     Raised UnboundLocalError
       (init_state\<lparr>processed_lines := {25}, is_sac_patate_combat := True\<rparr>) \<and>
   outcome_state (parse_log_line example_env init_state line_sac_marker) \<noteq> init_state \<and>
   \<not> is_sac_patate_combat init_state \<and>
   is_sac_patate_combat (outcome_state (parse_log_line example_env init_state line_sac_marker))"
  by (simp add: parse_body_sac_marker parse_log_line_state) (simp add: init_state_def)

section \<open>Timeline pushes\<close>

lemma add_spell_unknown:
  assumes "spell_cost_map s = Some cm" and "\<not> known_spell cm n"
  shows "add_spell_to_timeline s n = Returned s"
proof (cases "map_of cm (strip n)")
  case None
  with assms(1) show ?thesis
    by (simp add: add_spell_to_timeline_def)
next
  case (Some cost_text)
  note c = this
  show ?thesis
  proof (cases "map_of spell_icon_stem_map (strip n)")
    case None
    with assms(1) c show ?thesis
      by (simp add: add_spell_to_timeline_def)
  next
    case (Some icon_stem)
    with assms c show ?thesis
      by (simp add: add_spell_to_timeline_def known_spell_def)
  qed
qed

lemma add_spell_known:
  assumes "spell_cost_map s = Some cm" and "known_spell cm n"
  shows "add_spell_to_timeline s n =
           Returned (s\<lparr>timeline_entries :=
                        last_n (timeline_max_slots + 1) (timeline_entries s @ [entry_of cm n])\<rparr>)"
proof -
  from assms(2) obtain cost_text icon_stem where
    c: "map_of cm (strip n) = Some cost_text" "cost_text \<noteq> []"
    and i: "map_of spell_icon_stem_map (strip n) = Some icon_stem" "icon_stem \<noteq> []"
    by (cases "map_of cm (strip n)"; cases "map_of spell_icon_stem_map (strip n)")
       (simp_all add: known_spell_def)
  have "last_n (timeline_max_slots + 1) xs = xs" if "\<not> length xs > timeline_max_slots" for xs :: "entry list"
    using that by (simp add: last_n_def)
  with assms(1) c i show ?thesis
    by (simp add: add_spell_to_timeline_def entry_of_def Let_def)
qed

text \<open>On the object \<open>__init__\<close> builds the dictionary is missing and every push raises.\<close>

lemma add_spell_no_map: "add_spell_to_timeline init_state n = Raised AttributeError init_state"
  by (simp add: add_spell_to_timeline_def init_state_def)

lemma last_n_append_last_n: "last_n k (last_n k xs @ ys) = last_n k (xs @ ys)"
  by (cases "k \<le> length xs") (simp_all add: last_n_def add.commute)

lemma push_all_one:
  assumes "spell_cost_map s = Some cm" and "known_spell cm n"
  shows "push_all s [n] =
           Returned (s\<lparr>timeline_entries :=
                        last_n (timeline_max_slots + 1)
                          (timeline_entries s @ map (entry_of cm) [n])\<rparr>)"
  using add_spell_known [OF assms] by simp

lemma push_all_known:
  assumes "spell_cost_map s = Some cm" and "ns \<noteq> []" and "\<forall>n \<in> set ns. known_spell cm n"
  shows "push_all s ns =
           Returned (s\<lparr>timeline_entries :=
                        last_n (timeline_max_slots + 1)
                          (timeline_entries s @ map (entry_of cm) ns)\<rparr>)"
  using assms
proof (induction ns arbitrary: s)
  case Nil
  from Nil.prems(2) show ?case by simp
next
  case (Cons n ns)
  let ?s1 = "s\<lparr>timeline_entries :=
                 last_n (timeline_max_slots + 1) (timeline_entries s @ [entry_of cm n])\<rparr>"
  from Cons.prems(3) have kn: "known_spell cm n" and k1: "\<forall>n \<in> set ns. known_spell cm n"
    by simp_all
  from Cons.prems(1) kn have step: "add_spell_to_timeline s n = Returned ?s1"
    by (rule add_spell_known)
  show ?case
  proof (cases "ns = []")
    case True
    from push_all_one [OF Cons.prems(1) kn] True show ?thesis
      by simp
  next
    case False
    have m1: "spell_cost_map ?s1 = Some cm"
      using Cons.prems(1) by simp
    have "push_all s (n # ns) = push_all ?s1 ns"
      using step by simp
    also have "\<dots> = Returned (?s1\<lparr>timeline_entries :=
                 last_n (timeline_max_slots + 1) (timeline_entries ?s1 @ map (entry_of cm) ns)\<rparr>)"
      by (rule Cons.IH [OF m1 False k1])
    also have "\<dots> = Returned (s\<lparr>timeline_entries :=
                 last_n (timeline_max_slots + 1)
                   (timeline_entries s @ map (entry_of cm) (n # ns))\<rparr>)"
      by (simp add: last_n_append_last_n)
    finally show ?thesis .
  qed
qed

lemma last_n_all: "length xs \<le> k \<Longrightarrow> last_n k xs = xs"
  by (simp add: last_n_def)

lemma length_last_n: "length (last_n k xs) \<le> k"
  by (simp add: last_n_def)

text \<open>
  C8 (as amended). With the cost dictionary present and a timeline of at most
  \<open>timeline_max_slots + 1\<close> = 6 entries, every sequence of pushes returns, and the
  timeline after it is the last 6 entries of the old timeline followed by the
  entries of the known spells pushed, in their order, newest last. A spell that
  one of the two dictionaries does not know leaves no entry. So six known pushes
  into an empty timeline of five slots leave six entries, and the oldest entry is
  evicted from the seventh on.
\<close>

theorem timeline_push:
  assumes "spell_cost_map s = Some cm"
    and "length (timeline_entries s) \<le> timeline_max_slots + 1"
  shows "push_all s ns =
           Returned (s\<lparr>timeline_entries :=
                        last_n (timeline_max_slots + 1)
                          (timeline_entries s @ map (entry_of cm) (filter (known_spell cm) ns))\<rparr>)"
  using assms
proof (induction ns arbitrary: s)
  case Nil
  from Nil.prems(2) show ?case
    by (simp add: last_n_all)
next
  case (Cons n ns)
  show ?case
  proof (cases "known_spell cm n")
    case True
    let ?s1 = "s\<lparr>timeline_entries :=
                   last_n (timeline_max_slots + 1) (timeline_entries s @ [entry_of cm n])\<rparr>"
    from Cons.prems(1) True have step: "add_spell_to_timeline s n = Returned ?s1"
      by (rule add_spell_known)
    have m1: "spell_cost_map ?s1 = Some cm"
      using Cons.prems(1) by simp
    have l1: "length (timeline_entries ?s1) \<le> timeline_max_slots + 1"
      by (simp add: length_last_n)
    have "push_all s (n # ns) = push_all ?s1 ns"
      using step by simp
    also have "\<dots> = Returned (?s1\<lparr>timeline_entries :=
                 last_n (timeline_max_slots + 1)
                   (timeline_entries ?s1 @ map (entry_of cm) (filter (known_spell cm) ns))\<rparr>)"
      by (rule Cons.IH [OF m1 l1])
    also have "\<dots> = Returned (s\<lparr>timeline_entries :=
                 last_n (timeline_max_slots + 1)
                   (timeline_entries s @ map (entry_of cm) (filter (known_spell cm) (n # ns)))\<rparr>)"
      using True by (simp add: last_n_append_last_n)
    finally show ?thesis .
  next
    case False
    with Cons.prems(1) have "add_spell_to_timeline s n = Returned s"
      by (rule add_spell_unknown)
    then have "push_all s (n # ns) = push_all s ns"
      by simp
    also have "\<dots> = Returned (s\<lparr>timeline_entries :=
                 last_n (timeline_max_slots + 1)
                   (timeline_entries s @ map (entry_of cm) (filter (known_spell cm) ns))\<rparr>)"
      by (rule Cons.IH [OF Cons.prems])
    finally show ?thesis
      using False by simp
  qed
qed


lemma six_spells_known: "\<forall>n \<in> set six_spells. known_spell example_cost_map n"
  by (simp add: six_spells_def known_spell_def example_cost_map_def spell_icon_stem_map_def
      strip_def is_space_def literal_defs)

lemma unknown_spell: "\<not> known_spell example_cost_map (asc ''Flamiche'')"
  by (simp add: known_spell_def example_cost_map_def spell_icon_stem_map_def
      strip_def is_space_def literal_defs)

lemma six_entries:
  "map (entry_of example_cost_map) six_spells =
     [\<lparr> spell = asc ''Fulgur'', cost = asc ''3PA'' \<rparr>,
      \<lparr> spell = asc ''Jugement'', cost = asc ''1PA'' \<rparr>,
      \<lparr> spell = asc ''Ravage'', cost = asc ''5PA'' \<rparr>,
      \<lparr> spell = asc ''Jabs'', cost = asc ''3PA'' \<rparr>,
      \<lparr> spell = asc ''Rafale'', cost = asc ''1PA'' \<rparr>,
      \<lparr> spell = asc ''Bond'', cost = asc ''4PA'' \<rparr>]"
  by (simp add: six_spells_def entry_of_def example_cost_map_def strip_def is_space_def asc_def)

lemma push_six:
  "push_all state_with_costs six_spells =
     Returned (state_with_costs\<lparr>timeline_entries := map (entry_of example_cost_map) six_spells\<rparr>)"
proof -
  have m: "spell_cost_map state_with_costs = Some example_cost_map"
    by (simp add: state_with_costs_def)
  have ne: "six_spells \<noteq> []"
    by (simp add: six_spells_def)
  have "timeline_entries state_with_costs = []"
    by (simp add: state_with_costs_def init_state_def)
  moreover have "length (map (entry_of example_cost_map) six_spells) = 6"
    by (simp add: six_spells_def)
  ultimately have
    "last_n (timeline_max_slots + 1)
       (timeline_entries state_with_costs @ map (entry_of example_cost_map) six_spells) =
     map (entry_of example_cost_map) six_spells"
    by (simp add: last_n_def timeline_max_slots_def)
  with push_all_known [OF m ne six_spells_known] show ?thesis
    by simp
qed

lemma filter_known_example:
  "filter (known_spell example_cost_map) (asc ''Flamiche'' # six_spells) = six_spells"
  using six_spells_known unknown_spell by simp

text \<open>An unknown spell and six known ones, pushed on an empty timeline.\<close>

theorem timeline_push_witness:
  "spell_cost_map state_with_costs = Some example_cost_map \<and>
   length (timeline_entries state_with_costs) \<le> timeline_max_slots + 1 \<and>
   push_all state_with_costs (asc ''Flamiche'' # six_spells) =
     Returned (state_with_costs\<lparr>timeline_entries :=
        [\<lparr> spell = asc ''Fulgur'', cost = asc ''3PA'' \<rparr>,
         \<lparr> spell = asc ''Jugement'', cost = asc ''1PA'' \<rparr>,
         \<lparr> spell = asc ''Ravage'', cost = asc ''5PA'' \<rparr>,
         \<lparr> spell = asc ''Jabs'', cost = asc ''3PA'' \<rparr>,
         \<lparr> spell = asc ''Rafale'', cost = asc ''1PA'' \<rparr>,
         \<lparr> spell = asc ''Bond'', cost = asc ''4PA'' \<rparr>]\<rparr>)"
proof -
  have h: "spell_cost_map state_with_costs = Some example_cost_map"
    by (simp add: state_with_costs_def)
  have e: "timeline_entries state_with_costs = []"
    by (simp add: state_with_costs_def init_state_def)
  then have l: "length (timeline_entries state_with_costs) \<le> timeline_max_slots + 1"
    by simp
  have "last_n (timeline_max_slots + 1) (map (entry_of example_cost_map) six_spells) =
      map (entry_of example_cost_map) six_spells"
    by (rule last_n_all) (simp add: six_spells_def timeline_max_slots_def)
  with timeline_push [OF h l, of "asc ''Flamiche'' # six_spells"] h l e
  show ?thesis
    by (simp only: filter_known_example six_entries append_Nil simp_thms)
qed

text \<open>
  After the six pushes the timeline has six entries, not five, and the first push
  is still at its head.
\<close>

theorem six_pushes_keep_six_entries:
  "length (timeline_entries (outcome_state (push_all state_with_costs six_spells))) = 6 \<and>
   hd (timeline_entries (outcome_state (push_all state_with_costs six_spells))) =
     \<lparr> spell = asc ''Fulgur'', cost = asc ''3PA'' \<rparr>"
  by (simp add: push_six six_entries)

text \<open>The sixth entry goes when the animation timer drops the faded head.\<close>

lemma tick_after_six_pushes:
  "timeline_entries (drop_faded_entry (outcome_state (push_all state_with_costs six_spells))) =
     [\<lparr> spell = asc ''Jugement'', cost = asc ''1PA'' \<rparr>,
      \<lparr> spell = asc ''Ravage'', cost = asc ''5PA'' \<rparr>,
      \<lparr> spell = asc ''Jabs'', cost = asc ''3PA'' \<rparr>,
      \<lparr> spell = asc ''Rafale'', cost = asc ''1PA'' \<rparr>,
      \<lparr> spell = asc ''Bond'', cost = asc ''4PA'' \<rparr>]"
  by (simp add: push_six six_entries drop_faded_entry_def timeline_max_slots_def)

section \<open>The deduplication window\<close>

lemma full_window_insert: "insert 5 {6..1005::int} = {5..1005}"
  by auto

lemma last_500_of_sorted: "last_n 500 [5..1005] = [506..1005]"
proof -
  have "[5..1005] = [5..505] @ [506..1005]"
    using upto_split2 [of 5 505 1005] by simp
  moreover have "length [5..505] = 501" and "length [506..1005] = 500"
    by simp_all
  ultimately show ?thesis
    by (simp only: last_n_def length_append) simp
qed

lemma after_dedup_trim:
  assumes "card (insert (line_hash ev line) (processed_lines s)) > 1000"
    and "\<not> has_sac_patate_marker line"
  shows "after_dedup ev s line =
           s\<lparr>processed_lines :=
               set (last_n 500 (set_order ev (insert (line_hash ev line) (processed_lines s))))\<rparr>"
  using assms by (simp add: after_dedup_def trim_processed_def mark_sac_patate_def)

lemma trimmed_full_window:
  "set (last_n 500 (set_order example_env (insert 5 {6..1005}))) = {506..1005}"
proof -
  have "set_order example_env (insert 5 {6..1005}) = sorted_list_of_set {5..1005::int}"
    by (simp only: example_env_def full_window_insert env.simps)
  also have "\<dots> = [5..1005]"
    by (rule sorted_lift_of_set_eq_upto)
  finally have "set (last_n 500 (set_order example_env (insert 5 {6..1005}))) = set [506..1005]"
    by (simp only: last_500_of_sorted)
  then show ?thesis
    by (simp only: set_upto)
qed

lemma after_dedup_full_window:
  "after_dedup example_env state_full_window line_plain =
     state_full_window\<lparr>processed_lines := {506..1005}\<rparr>"
proof -
  have w: "processed_lines state_full_window = {6..1005}"
    by (simp add: state_full_window_def)
  have "card (insert 5 {6..1005::int}) = 1001"
    by (simp add: full_window_insert)
  then have "card (insert (line_hash example_env line_plain) (processed_lines state_full_window)) > 1000"
    by (simp only: line_plain_hash w)
  from after_dedup_trim [OF this line_plain_no_marker] show ?thesis
    by (simp only: line_plain_hash w trimmed_full_window)
qed

lemma after_dedup_trimmed_window:
  "after_dedup example_env (state_full_window\<lparr>processed_lines := {506..1005}\<rparr>) line_plain =
     state_full_window\<lparr>processed_lines := insert 5 {506..1005}\<rparr>"
proof -
  have "after_dedup example_env (state_full_window\<lparr>processed_lines := {506..1005}\<rparr>) line_plain =
      (state_full_window\<lparr>processed_lines := {506..1005}\<rparr>)\<lparr>processed_lines :=
         insert (line_hash example_env line_plain) {506..1005},
       is_sac_patate_combat := (is_sac_patate_combat state_full_window \<or>
         has_sac_patate_marker line_plain)\<rparr>"
    using after_dedup_small [of "state_full_window\<lparr>processed_lines := {506..1005}\<rparr>" example_env line_plain]
    by simp
  then show ?thesis
    by (simp add: line_plain_hash line_plain_no_marker state_full_window_def init_state_def)
qed


lemma cast_step_frames:
  "processed_lines (note_last_caster m s) = processed_lines s"
  "processed_lines (bind_tracked_player a c s) = processed_lines s"
  "processed_lines (enter_combat b s) = processed_lines s"
  "processed_lines (show_overlay a b s) = processed_lines s"
  "pending_rage_loss (note_last_caster m s) = pending_rage_loss s"
  "pending_rage_loss (bind_tracked_player a c s) = pending_rage_loss s"
  "pending_rage_loss (enter_combat b s) = pending_rage_loss s"
  "pending_rage_loss (show_overlay a b s) = pending_rage_loss s"
  "rage (note_last_caster m s) = rage s"
  "rage (bind_tracked_player a c s) = rage s"
  "rage (enter_combat b s) = rage s"
  "rage (show_overlay a b s) = rage s"
  "ougi_spells (note_last_caster m s) = ougi_spells s"
  by (simp_all add: note_last_caster_def bind_tracked_player_def enter_combat_def
      show_overlay_def split: option.splits)

lemma add_spell_frames:
  "processed_lines (outcome_state (add_spell_to_timeline s n)) = processed_lines s"
  "pending_rage_loss (outcome_state (add_spell_to_timeline s n)) = pending_rage_loss s"
  "rage (outcome_state (add_spell_to_timeline s n)) = rage s"
  by (simp_all add: add_spell_to_timeline_def Let_def split: option.splits prod.splits)

lemma cast_effects_frames:
  "processed_lines (outcome_state (cast_effects s c n spells)) = processed_lines s"
  "pending_rage_loss (outcome_state (cast_effects s c n spells)) = pending_rage_loss s"
  "rage (outcome_state (cast_effects s c n spells)) = rage s"
  by (simp_all add: cast_effects_def Let_def cast_step_frames add_spell_frames)

lemma cast_branch_frames:
  "processed_lines (outcome_state (cast_branch s line)) = processed_lines s"
  "pending_rage_loss (outcome_state (cast_branch s line)) = pending_rage_loss s"
  "rage (outcome_state (cast_branch s line)) = rage s"
  by (simp_all add: cast_branch_def Let_def cast_step_frames cast_effects_frames
      split: option.splits)

lemma combat_end_window:
  "processed_lines (outcome_state (combat_end s)) = processed_lines s"
  by (simp add: combat_end_def Let_def split: option.splits)

lemma parse_body_window:
  assumes "\<not> is_duplicate ev s line"
  shows "processed_lines (outcome_state (parse_body ev s line)) =
           processed_lines (after_dedup ev s line)"
proof (cases "sublist lance_le_sort line")
  case True
  with assms show ?thesis
    by (simp add: parse_body_def is_duplicate_def Let_def cast_branch_frames)
next
  case False
  from combat_ended_local_cases [of "after_dedup ev s line" line] show ?thesis
  proof
    assume "combat_ended_local (after_dedup ev s line) line = None"
    with assms False show ?thesis
      by (simp add: parse_body_def is_duplicate_def Let_def)
  next
    assume "combat_ended_local (after_dedup ev s line) line = Some True"
    with assms False show ?thesis
      by (simp add: parse_body_def is_duplicate_def Let_def combat_end_window)
  qed
qed

text \<open>
  While the window stays below its limit, a line fed twice in succession is
  rejected the second time.
\<close>

lemma repeat_is_rejected:
  assumes "finite (processed_lines s)" and "card (processed_lines s) < 1000"
  shows "\<exists>s1. parse_log_line ev s line = Returned s1 \<and> parse_body ev s1 line = Returned s1"
proof (cases "is_duplicate ev s line")
  case True
  then have "parse_body ev s line = Returned s"
    by (simp add: parse_body_def is_duplicate_def)
  then show ?thesis
    by (simp add: parse_log_line_state)
next
  case False
  have "line_hash ev line \<in> processed_lines (after_dedup ev s line)"
    using assms by (simp add: after_dedup_small)
  with False have "line_hash ev line \<in> processed_lines (outcome_state (parse_body ev s line))"
    by (simp add: parse_body_window)
  then have "parse_body ev (outcome_state (parse_body ev s line)) line =
      Returned (outcome_state (parse_body ev s line))"
    by (simp add: parse_body_def)
  then show ?thesis
    by (simp add: parse_log_line_state)
qed

text \<open>
  C7. The claim: a line fed twice in succession is rejected the second time, and a
  window of more than 1000 fingerprints is cut to the 500 inserted last. The code
  cuts the window to the last 500 of the set's iteration order, which is not the
  order of insertion. With 1000 fingerprints 6..1005 in the window, a new line of
  fingerprint 5 and a set that iterates in increasing order: the first call
  inserts 5, the trim keeps 506..1005 and so forgets the fingerprint it has just
  inserted; the second call of the same line is not rejected, it inserts 5 again
  and goes on to classify the line.
\<close>

theorem trim_forgets_newest_fingerprint:
  "card (processed_lines state_full_window) = 1000 \<and>
   line_hash example_env line_plain = 5 \<and>
   parse_log_line example_env state_full_window line_plain =
     Returned (state_full_window\<lparr>processed_lines := {506..1005}\<rparr>) \<and>
   parse_body example_env (state_full_window\<lparr>processed_lines := {506..1005}\<rparr>) line_plain =
     Raised UnboundLocalError (state_full_window\<lparr>processed_lines := insert 5 {506..1005}\<rparr>)"
proof -
  have "\<not> is_duplicate example_env state_full_window line_plain"
    by (simp add: is_duplicate_def line_plain_hash state_full_window_def)
  then have first: "parse_body example_env state_full_window line_plain =
      Raised UnboundLocalError (state_full_window\<lparr>processed_lines := {506..1005}\<rparr>)"
    by (simp add: parse_body_unclassified line_plain_facts after_dedup_full_window)
  have "\<not> is_duplicate example_env (state_full_window\<lparr>processed_lines := {506..1005}\<rparr>) line_plain"
    by (simp add: is_duplicate_def line_plain_hash)
  then have second: "parse_body example_env (state_full_window\<lparr>processed_lines := {506..1005}\<rparr>)
        line_plain =
      Raised UnboundLocalError (state_full_window\<lparr>processed_lines := insert 5 {506..1005}\<rparr>)"
    by (simp add: parse_body_unclassified line_plain_facts after_dedup_trimmed_window)
  have "card (processed_lines state_full_window) = 1000"
    by (simp add: state_full_window_def)
  with first second show ?thesis
    by (simp add: parse_log_line_state line_plain_hash)
qed

section \<open>The pending confirmation\<close>

lemma after_dedup_frames:
  "pending_rage_loss (after_dedup ev s line) = pending_rage_loss s"
  "rage (after_dedup ev s line) = rage s"
  by (simp_all add: after_dedup_def trim_processed_def mark_sac_patate_def)

lemma combat_end_clears:
  "\<not> pending_rage_loss (outcome_state (combat_end s))"
  "rage (outcome_state (combat_end s)) = 0"
  by (simp_all add: combat_end_def Let_def split: option.splits)

lemma parse_body_invariant:
  assumes "\<not> pending_rage_loss s" and "rage s = 0"
  shows "\<not> pending_rage_loss (outcome_state (parse_body ev s line)) \<and>
         rage (outcome_state (parse_body ev s line)) = 0"
proof (cases "is_duplicate ev s line")
  case True
  with assms show ?thesis
    by (simp add: parse_body_def is_duplicate_def)
next
  case nd: False
  show ?thesis
  proof (cases "sublist lance_le_sort line")
    case True
    with assms nd show ?thesis
      by (simp add: parse_body_def is_duplicate_def Let_def cast_branch_frames after_dedup_frames)
  next
    case False
    from combat_ended_local_cases [of "after_dedup ev s line" line] show ?thesis
    proof
      assume "combat_ended_local (after_dedup ev s line) line = None"
      with assms nd False show ?thesis
        by (simp add: parse_body_def is_duplicate_def Let_def after_dedup_frames)
    next
      assume "combat_ended_local (after_dedup ev s line) line = Some True"
      with assms nd False show ?thesis
        by (simp add: parse_body_def is_duplicate_def Let_def combat_end_clears)
    qed
  qed
qed

lemma reachable_invariant:
  assumes "reachable ev s"
  shows "\<not> pending_rage_loss s \<and> rage s = 0"
  using assms
proof (induction rule: reachable.induct)
  case reach_init
  show ?case by (simp add: init_state_def)
next
  case (reach_line s line s')
  from reach_line.hyps(2) have "s' = outcome_state (parse_body ev s line)"
    by (simp add: parse_log_line_state)
  with reach_line.IH show ?case
    by (simp add: parse_body_invariant)
next
  case (reach_tick s)
  then show ?case by (simp add: sync_display_def)
next
  case (reach_drop s)
  then show ?case by (simp add: drop_faded_entry_def)
qed

lemma damage_confirmation_idle:
  assumes "\<not> pending_rage_loss s"
  shows "damage_confirmation s line = Returned s"
  using assms by (simp add: damage_confirmation_def split: option.splits)

text \<open>
  C10. The flag \<open>pending_rage_loss\<close> starts false and no operation sets it, so it
  is false in every reachable state. Hence the damage-confirmation test, whatever
  state the function brings to it, returns that state unchanged: its branch that
  resets the counter never runs. And no line, a damage line in particular, changes
  the counter \<open>rage\<close> of a reachable state.
\<close>

theorem pending_never_armed:
  assumes "reachable ev s"
  shows "\<not> pending_rage_loss s \<and>
         damage_confirmation (after_dedup ev s line) line = Returned (after_dedup ev s line) \<and>
         rage (outcome_state (parse_log_line ev s line)) = rage s"
proof -
  from assms have inv: "\<not> pending_rage_loss s" "rage s = 0"
    by (simp_all add: reachable_invariant)
  then have "\<not> pending_rage_loss (after_dedup ev s line)"
    by (simp add: after_dedup_frames)
  then have "damage_confirmation (after_dedup ev s line) line = Returned (after_dedup ev s line)"
    by (rule damage_confirmation_idle)
  moreover from inv have "rage (outcome_state (parse_log_line ev s line)) = rage s"
    by (simp add: parse_log_line_state parse_body_invariant)
  ultimately show ?thesis
    using inv by simp
qed

text \<open>The state after one plain line, and a damage line fed to it.\<close>

lemma state_seen_reachable: "reachable example_env state_seen"
proof -
  have "parse_log_line example_env init_state line_plain = Returned state_seen"
    using parse_body_unclassified [of line_plain init_state example_env]
    by (simp add: parse_log_line_state line_plain_facts is_duplicate_def after_dedup_init_plain
        state_seen_def)
       (simp add: init_state_def)
  with reach_init show ?thesis
    by (rule reach_line)
qed

lemma line_damage_matches:
  "re_search pat_damage line_damage = Some [asc ''Sac'', asc ''64'']"
  by (simp add: line_defs literal_defs pattern_defs class_defs)

theorem pending_never_armed_witness:
  "reachable example_env state_seen \<and>
   \<not> pending_rage_loss state_seen \<and>
   re_search pat_damage line_damage = Some [asc ''Sac'', asc ''64''] \<and>
   damage_confirmation (after_dedup example_env state_seen line_damage) line_damage =
     Returned (after_dedup example_env state_seen line_damage) \<and>
   rage (outcome_state (parse_log_line example_env state_seen line_damage)) = rage state_seen"
  using pending_never_armed [OF state_seen_reachable, of line_damage] state_seen_reachable
  by (simp add: line_damage_matches)

section \<open>What a run of the tracker can reach\<close>

text \<open>
  From \<open>__init__\<close> on, every line ends in one of three ways: at the duplicate
  test, at a read of an attribute the class never defines (cast lines and combat
  ends), or at the read of the unbound \<open>combat_ended\<close>. So a run changes the
  deduplication window, the special-encounter flag and the last caster, and
  nothing else: counters, flag, tracked actor and timeline stay as initialised.
\<close>

lemma line_cast_facts:
  "sublist lance_le_sort line_cast"
  "\<not> has_sac_patate_marker line_cast"
  "re_search pat_player_spell_colon line_cast = Some [bob]"
  by (simp_all add: has_sac_patate_marker_def line_defs literal_defs pattern_defs class_defs
      sublist_code)

text \<open>
  A cast line on a fresh tracker: the last caster is recorded, then the read of
  \<open>self.ougi_spells\<close> fails.
\<close>

lemma cast_line_on_fresh_tracker:
  "parse_body ev init_state line_cast =
     Raised AttributeError
       (init_state\<lparr>processed_lines := {line_hash ev line_cast}, last_spell_caster := Some bob\<rparr>)"
proof -
  have "after_dedup ev init_state line_cast =
      init_state\<lparr>processed_lines := {line_hash ev line_cast}\<rparr>"
    by (simp add: after_dedup_def trim_processed_def mark_sac_patate_def line_cast_facts
        init_state_def)
  moreover have "strip bob = bob"
    by (simp add: strip_def bob_def asc_def is_space_def)
  ultimately show ?thesis
    by (simp add: parse_body_def cast_branch_def note_last_caster_def line_cast_facts Let_def)
       (simp add: init_state_def)
qed

lemma untouched_after_dedup: "untouched (after_dedup ev s line) = untouched s"
  by (simp add: untouched_def after_dedup_def trim_processed_def mark_sac_patate_def)

lemma untouched_note_last_caster: "untouched (note_last_caster m s) = untouched s"
  by (simp add: untouched_def note_last_caster_def split: option.splits)

lemma untouched_cast_branch:
  assumes "untouched s"
  shows "untouched (outcome_state (cast_branch s line))"
proof -
  from assms have "ougi_spells s = None"
    by (simp add: untouched_def)
  with assms show ?thesis
    by (simp add: cast_branch_def Let_def cast_step_frames untouched_note_last_caster)
qed

lemma untouched_combat_end:
  assumes "untouched s"
  shows "untouched (outcome_state (combat_end s))"
  using assms by (simp add: combat_end_def Let_def untouched_def)

lemma untouched_parse_body:
  assumes "untouched s"
  shows "untouched (outcome_state (parse_body ev s line))"
proof (cases "is_duplicate ev s line")
  case True
  with assms show ?thesis
    by (simp add: parse_body_def is_duplicate_def)
next
  case nd: False
  from assms have ad: "untouched (after_dedup ev s line)"
    by (simp add: untouched_after_dedup)
  show ?thesis
  proof (cases "sublist lance_le_sort line")
    case True
    with nd untouched_cast_branch [OF ad, of line] show ?thesis
      by (simp add: parse_body_def is_duplicate_def Let_def)
  next
    case False
    from combat_ended_local_cases [of "after_dedup ev s line" line] show ?thesis
    proof
      assume "combat_ended_local (after_dedup ev s line) line = None"
      with nd False ad show ?thesis
        by (simp add: parse_body_def is_duplicate_def Let_def)
    next
      assume "combat_ended_local (after_dedup ev s line) line = Some True"
      with nd False untouched_combat_end [OF ad] show ?thesis
        by (simp add: parse_body_def is_duplicate_def Let_def)
    qed
  qed
qed

lemma reachable_untouched:
  assumes "reachable ev s"
  shows "untouched s"
  using assms
proof (induction rule: reachable.induct)
  case reach_init
  show ?case by (simp add: untouched_def init_state_def)
next
  case (reach_line s line s')
  from reach_line.hyps(2) have "s' = outcome_state (parse_body ev s line)"
    by (simp add: parse_log_line_state)
  with reach_line.IH show ?case
    by (simp add: untouched_parse_body)
next
  case (reach_tick s)
  then show ?case by (simp add: untouched_def sync_display_def)
next
  case (reach_drop s)
  from reach_drop.IH have "timeline_entries s = []"
    by (simp add: untouched_def)
  then have "drop_faded_entry s = s"
    by (simp add: drop_faded_entry_def)
  with reach_drop.IH show ?case by simp
qed

end
